theory Spec2Isabelle
  imports Complex_Main "HOL-Library.Sublist"
begin

section \<open>The data model (models.py)\<close>

text \<open>
  A \<open>datetime\<close> is the number of microseconds since some fixed origin (the resolution
  of Python's \<open>datetime\<close>); a \<open>timedelta\<close> is a difference of two of them.
  Python's integers are unbounded, so every integer column is an \<open>int\<close>.

  The rows of table \<open>urls\<close>. The primary key \<open>id\<close> is written \<open>URL_id\<close>
  (\<open>id\<close> is the identity function of HOL); \<open>created_at\<close> and \<open>updated_at\<close>
  are never read by the code modelled here and are left out.
\<close>

type_synonym datetime = int

record URL =
  URL_id :: int
  url :: string
  name :: string
  is_active :: bool
  check_frequency :: int
  is_one_time :: bool
  alert_enabled :: bool
  consecutive_failures :: int
  last_alerted_at :: "datetime option"
  alert_recovery :: bool

text \<open>
  The rows of table \<open>url_statuses\<close> (primary key and server-side timestamp left out).
  \<open>response_time\<close> is a Python float, read here as a real number.
\<close>

record URLStatus =
  url_id :: int
  status_code :: int
  response_time :: real
  is_up :: bool
  error_message :: "string option"

section \<open>The alert manager (alert\_manager.py)\<close>

record AlertManager =
  slack_webhook_url :: string
  failure_threshold :: int
  cooldown_minutes :: int

text \<open>
  What the outside world answers during one call of \<open>process_status_for_alerts\<close>:
  the clock read by the cooldown test, whether \<open>requests.post\<close> followed by
  \<open>raise_for_status\<close> returns (\<open>True\<close>) or raises (\<open>False\<close>), and the clock
  read after a successful post.
\<close>

record world =
  now_check :: datetime
  post_ok :: bool
  now_sent :: datetime

text \<open>
  What a call does to the outside world: the webhook posts it attempts, each with whether
  it was delivered, and the lines it prints.
\<close>

datatype alert = FailureAlert | RecoveryAlert

datatype log_line =
  NoWebhook | AlertSent | ErrorSendingAlert | RecoverySent | ErrorSendingRecovery

record effects =
  posts :: "(alert \<times> bool) list"
  printed :: "log_line list"

definition no_effects :: effects where
  "no_effects = \<lparr>posts = [], printed = []\<rparr>"

definition then_effects :: "effects \<Rightarrow> effects \<Rightarrow> effects" where
  "then_effects a b = \<lparr>posts = posts a @ posts b, printed = printed a @ printed b\<rparr>"

text \<open>\<open>timedelta(minutes=m)\<close>, in microseconds.\<close>

definition timedelta_minutes :: "int \<Rightarrow> int" where
  "timedelta_minutes m = m * 60000000"

text \<open>
  The cooldown test of \<open>send_failure_alert\<close>:
  \<open>url.last_alerted_at and datetime.now() - url.last_alerted_at < timedelta(minutes=...)\<close>.
\<close>

definition in_cooldown :: "AlertManager \<Rightarrow> world \<Rightarrow> URL \<Rightarrow> bool" where
  "in_cooldown am w u =
     (case last_alerted_at u of
        None \<Rightarrow> False
      | Some t \<Rightarrow> now_check w - t < timedelta_minutes (cooldown_minutes am))"

text \<open>
  \<open>send_failure_alert\<close> returns the row as it leaves it, its effects and its return
  value. The status only fills the text of the message, which is not modelled.
\<close>

definition send_failure_alert ::
  "AlertManager \<Rightarrow> world \<Rightarrow> URL \<Rightarrow> URLStatus \<Rightarrow> URL \<times> effects \<times> bool" where
  "send_failure_alert am w u st =
     (if slack_webhook_url am = [] then (u, \<lparr>posts = [], printed = [NoWebhook]\<rparr>, False)
      else if in_cooldown am w u then (u, no_effects, False)
      else if post_ok w then
        (u\<lparr>last_alerted_at := Some (now_sent w)\<rparr>,
         \<lparr>posts = [(FailureAlert, True)], printed = [AlertSent]\<rparr>, True)
      else (u, \<lparr>posts = [(FailureAlert, False)], printed = [ErrorSendingAlert]\<rparr>, False))"

definition send_recovery_alert :: "AlertManager \<Rightarrow> world \<Rightarrow> URL \<Rightarrow> effects \<times> bool" where
  "send_recovery_alert am w u =
     (if slack_webhook_url am = [] then (no_effects, False)
      else if post_ok w then
        (\<lparr>posts = [(RecoveryAlert, True)], printed = [RecoverySent]\<rparr>, True)
      else (\<lparr>posts = [(RecoveryAlert, False)], printed = [ErrorSendingRecovery]\<rparr>, False))"

text \<open>
  \<open>process_status_for_alerts\<close> on the table \<open>urls\<close> (a map from primary key to row):
  the table as committed, and the effects.
\<close>

definition process_status_for_alerts ::
  "AlertManager \<Rightarrow> world \<Rightarrow> (int \<rightharpoonup> URL) \<Rightarrow> int \<Rightarrow> URLStatus \<Rightarrow> (int \<rightharpoonup> URL) \<times> effects" where
  "process_status_for_alerts am w db i st =
     (case db i of
        None \<Rightarrow> (db, no_effects)
      | Some u \<Rightarrow>
          if \<not> alert_enabled u \<or> is_one_time u then (db, no_effects)
          else if is_up st then
            (let e = (if consecutive_failures u \<ge> failure_threshold am \<and> alert_recovery u
                      then fst (send_recovery_alert am w u) else no_effects);
                 u' = u\<lparr>consecutive_failures := 0\<rparr>
             in (db(i \<mapsto> u'), e))
          else
            (let u1 = u\<lparr>consecutive_failures := consecutive_failures u + 1\<rparr>;
                 (u2, e) = (if consecutive_failures u1 = failure_threshold am
                            then (let (u', e', r) = send_failure_alert am w u1 st in (u', e'))
                            else (u1, no_effects))
             in (db(i \<mapsto> u2), e)))"

text \<open>
  The alerting state is derived: the target is alerting when its failure streak has
  reached the threshold (the test of the recovery branch).
\<close>

definition alerting :: "AlertManager \<Rightarrow> URL \<Rightarrow> bool" where
  "alerting am u = (consecutive_failures u \<ge> failure_threshold am)"

text \<open>
  The successive ticks of one target: each tick brings the world's answers and the
  status the probe recorded.
\<close>

fun process_ticks ::
  "AlertManager \<Rightarrow> (int \<rightharpoonup> URL) \<Rightarrow> int \<Rightarrow> (world \<times> URLStatus) list \<Rightarrow> (int \<rightharpoonup> URL) \<times> effects" where
  "process_ticks am db i [] = (db, no_effects)"
| "process_ticks am db i ((w, st) # ts) =
     (let (db1, e1) = process_status_for_alerts am w db i st;
          (db2, e2) = process_ticks am db1 i ts
      in (db2, then_effects e1 e2))"

text \<open>
  What the properties below count: the failure posts attempted, and the failure posts
  delivered.
\<close>

definition failure_posts :: "effects \<Rightarrow> (alert \<times> bool) list" where
  "failure_posts e = filter (\<lambda>p. fst p = FailureAlert) (posts e)"

definition delivered_failures :: "effects \<Rightarrow> nat" where
  "delivered_failures e = length (filter (\<lambda>p. p = (FailureAlert, True)) (posts e))"

section \<open>The probe (network\_monitor.py, \<open>check_url\<close>)\<close>

text \<open>
  A call into the outside world either returns a value or raises an exception \<open>e\<close>,
  kept as its text \<open>str(e)\<close>.
\<close>

datatype 'a attempt = Returned 'a | Raised string

text \<open>
  What the outside world answers during one call of \<open>check_url\<close>: starting the
  capture thread, starting the fallback thread (attempted only when the first start
  raised), \<open>requests.get(url, timeout=10)\<close> (the status code of the response, or the
  exception, a timeout included) and the time the request took.
\<close>

record probe_world =
  capture_thread_start :: "unit attempt"
  fallback_thread_start :: "unit attempt"
  get_response :: "int attempt"
  elapsed :: real

text \<open>
  The \<open>try\<close> block of \<open>check_url\<close>: \<open>Inl e\<close> when an exception leaves it.
  \<open>get_reached\<close> says that the block gets as far as the GET: the capture thread
  started, or its replacement did.
\<close>

definition get_reached :: "probe_world \<Rightarrow> bool" where
  "get_reached pw =
     (case capture_thread_start pw of
        Returned x \<Rightarrow> True
      | Raised e \<Rightarrow> (case fallback_thread_start pw of Returned x \<Rightarrow> True | Raised e' \<Rightarrow> False))"

definition check_url_try :: "probe_world \<Rightarrow> int \<Rightarrow> string \<Rightarrow> string + URLStatus" where
  "check_url_try pw i u =
     (case (case capture_thread_start pw of
              Returned x \<Rightarrow> Returned x
            | Raised e \<Rightarrow> fallback_thread_start pw) of
        Raised e \<Rightarrow> Inl e
      | Returned x \<Rightarrow>
          (case get_response pw of
             Raised e \<Rightarrow> Inl e
           | Returned code \<Rightarrow>
               Inr \<lparr>url_id = i, status_code = code, response_time = elapsed pw,
                    is_up = (code < 400), error_message = None\<rparr>))"

text \<open>
  \<open>check_url\<close> on the table \<open>url_statuses\<close>: the \<open>except Exception\<close> handler
  turns whatever left the \<open>try\<close> block into a status; the status is added to the
  table, committed and returned. The store is taken to accept the write. The capture
  thread writes to another table and is modelled on its own below.
\<close>

definition check_url ::
  "probe_world \<Rightarrow> URLStatus list \<Rightarrow> int \<Rightarrow> string \<Rightarrow> URLStatus list \<times> URLStatus" where
  "check_url pw tbl i u =
     (let status =
        (case check_url_try pw i u of
           Inr s \<Rightarrow> s
         | Inl e \<Rightarrow>
             \<lparr>url_id = i, status_code = 0, response_time = 0, is_up = False,
              error_message = Some e\<rparr>)
      in (tbl @ [status], status))"

section \<open>The scheduler (network\_monitor.py, \<open>start_monitoring\<close> and friends)\<close>

text \<open>
  A job of the background scheduler: its interval in seconds and the arguments
  \<open>[url_obj.id, url_obj.url]\<close> of \<open>check_url\<close>. The monitor holds the scheduler's
  job store (by job id; the scheduler hands out fresh ids, modelled by a counter), the
  dictionary \<open>self.jobs\<close> from the target's id to its job, and the table
  \<open>url_statuses\<close> of its database handle.
\<close>

record job =
  job_seconds :: int
  job_args :: "int \<times> string"

record NetworkMonitor =
  scheduler :: "nat \<rightharpoonup> job"
  next_job_id :: nat
  jobs :: "int \<rightharpoonup> nat"
  url_statuses :: "URLStatus list"

text \<open>
  The scheduler is a library. What \<open>start_monitoring\<close> depends on is modelled:
  \<open>job.remove()\<close> raises \<open>JobLookupError\<close> when the scheduler does not hold the
  job; \<open>scheduler.add_job(..., 'interval', seconds=s)\<close> builds the trigger from
  \<open>timedelta(seconds=s)\<close> and the current time plus that interval, which raises
  \<open>OverflowError\<close> when \<open>s\<close> is outside the range that \<open>timedelta\<close> and
  \<open>datetime\<close> can hold; an interval of 0 is replaced by 1 second; otherwise the job is
  stored under a fresh id with the interval as given. A negative interval in range is
  stored as given, and the scheduler's own thread does not serve such a job; the
  properties below are stated for intervals of at least 1 second.

  The world says which intervals the trigger accepts at the moment of the call (the
  range of \<open>timedelta\<close>, from -86399999913600 to 86399999999999 seconds, cut down to
  the intervals that the current time plus the interval can hold), and answers the check
  that \<open>start_monitoring\<close> performs.

  An exception leaves the monitor as it was when it was raised: every operation returns
  the monitor after the call together with the exception or the value returned.
\<close>

datatype error = JobLookupError | OverflowError

record monitoring_world =
  lowest_interval :: int
  highest_interval :: int
  probe :: probe_world

definition job_remove :: "NetworkMonitor \<Rightarrow> nat \<Rightarrow> NetworkMonitor \<times> (error + unit)" where
  "job_remove m j =
     (case scheduler m j of
        None \<Rightarrow> (m, Inl JobLookupError)
      | Some jb \<Rightarrow> (m\<lparr>scheduler := (scheduler m)(j := None)\<rparr>, Inr ()))"

definition add_job ::
  "monitoring_world \<Rightarrow> NetworkMonitor \<Rightarrow> int \<Rightarrow> int \<times> string \<Rightarrow>
   NetworkMonitor \<times> (error + nat)" where
  "add_job mw m secs a =
     (if secs < lowest_interval mw \<or> highest_interval mw < secs then (m, Inl OverflowError)
      else
        (let interval_length = (if secs = 0 then 1 else secs)
         in (m\<lparr>scheduler := (scheduler m)
                  (next_job_id m \<mapsto> \<lparr>job_seconds = interval_length, job_args = a\<rparr>),
               next_job_id := Suc (next_job_id m)\<rparr>,
             Inr (next_job_id m))))"

definition start_monitoring ::
  "monitoring_world \<Rightarrow> NetworkMonitor \<Rightarrow> URL \<Rightarrow> NetworkMonitor \<times> (error + unit)" where
  "start_monitoring mw m url_obj =
     (case (case jobs m (URL_id url_obj) of
              Some j \<Rightarrow> job_remove m j
            | None \<Rightarrow> (m, Inr ())) of
        (m1, Inl e) \<Rightarrow> (m1, Inl e)
      | (m1, Inr x) \<Rightarrow>
          (case add_job mw m1 (check_frequency url_obj) (URL_id url_obj, url url_obj) of
             (m2, Inl e) \<Rightarrow> (m2, Inl e)
           | (m2, Inr j) \<Rightarrow>
               (let m3 = m2\<lparr>jobs := (jobs m2)(URL_id url_obj \<mapsto> j)\<rparr>;
                    (tbl, status) =
                      check_url (probe mw) (url_statuses m3) (URL_id url_obj) (url url_obj)
                in (m3\<lparr>url_statuses := tbl\<rparr>, Inr ()))))"

definition stop_monitoring :: "NetworkMonitor \<Rightarrow> int \<Rightarrow> NetworkMonitor \<times> (error + bool)" where
  "stop_monitoring m i =
     (case jobs m i of
        Some j \<Rightarrow>
          (case job_remove m j of
             (m1, Inl e) \<Rightarrow> (m1, Inl e)
           | (m1, Inr x) \<Rightarrow> (m1\<lparr>jobs := (jobs m1)(i := None)\<rparr>, Inr True))
      | None \<Rightarrow> (m, Inr False))"

definition update_frequency ::
  "monitoring_world \<Rightarrow> NetworkMonitor \<Rightarrow> URL \<Rightarrow> NetworkMonitor \<times> (error + bool)" where
  "update_frequency mw m url_obj =
     (case jobs m (URL_id url_obj) of
        Some j \<Rightarrow>
          (case stop_monitoring m (URL_id url_obj) of
             (m1, Inl e) \<Rightarrow> (m1, Inl e)
           | (m1, Inr r) \<Rightarrow>
               (case start_monitoring mw m1 url_obj of
                  (m2, Inl e) \<Rightarrow> (m2, Inl e)
                | (m2, Inr x) \<Rightarrow> (m2, Inr True)))
      | None \<Rightarrow> (m, Inr False))"

text \<open>
  The monitor as \<open>__init__\<close> leaves it, and the invariant that ties \<open>self.jobs\<close>
  to the scheduler: every entry of \<open>self.jobs\<close> names a job the scheduler holds for
  that target, and every job the scheduler holds is the entry of its target (and its id
  has been handed out). \<open>jobs_of m i\<close> are the scheduler's jobs for target \<open>i\<close>;
  \<open>replaced_scheduler m u\<close> is the job store with the old job of \<open>u\<close> removed and
  the new one added; \<open>interval_accepted mw u\<close> says that the interval of \<open>u\<close> is at
  least 1 second and one the trigger accepts.
\<close>

definition new_monitor :: NetworkMonitor where
  "new_monitor = \<lparr>scheduler = Map.empty, next_job_id = 0, jobs = Map.empty, url_statuses = []\<rparr>"





section \<open>The resource-type guesser (network\_monitor.py, \<open>_guess_resource_type\<close>)\<close>

text \<open>
  Strings are lists of characters. \<open>lower\<close> lowers the ASCII letters (Python's
  \<open>str.lower\<close> on ASCII text); \<open>contains s sub\<close> is \<open>sub in s\<close>,
  \<open>endswith\<close> and \<open>startswith\<close> are the string methods.
\<close>

definition lower_char :: "char \<Rightarrow> char" where
  "lower_char c =
     (let n = (of_char c :: nat) in if 65 \<le> n \<and> n \<le> 90 then char_of (n + 32) else c)"

definition lower :: "string \<Rightarrow> string" where
  "lower s = map lower_char s"

definition contains :: "string \<Rightarrow> string \<Rightarrow> bool" where
  "contains s sub = sublist sub s"

definition endswith :: "string \<Rightarrow> string \<Rightarrow> bool" where
  "endswith s suf = suffix suf s"

definition startswith :: "string \<Rightarrow> string \<Rightarrow> bool" where
  "startswith s pre = prefix pre s"

text \<open>
  The two phases of \<open>_guess_resource_type\<close>: first the content type (skipped when it
  is empty), then the extension of the lowered URL.
\<close>

definition by_content_type :: "string \<Rightarrow> string option" where
  "by_content_type content_type =
     (if content_type \<noteq> [] then
        (if contains content_type ''javascript'' then Some ''JavaScript''
         else if contains content_type ''css'' then Some ''Stylesheet''
         else if contains content_type ''image/'' then Some ''Image''
         else if contains content_type ''html'' then Some ''HTML''
         else None)
      else None)"

definition by_extension :: "string \<Rightarrow> string" where
  "by_extension url_lower =
     (if endswith url_lower ''.jpg'' \<or> endswith url_lower ''.jpeg'' \<or>
         endswith url_lower ''.png'' \<or> endswith url_lower ''.gif'' \<or>
         endswith url_lower ''.webp'' then ''Image''
      else if endswith url_lower ''.css'' then ''Stylesheet''
      else if endswith url_lower ''.js'' then ''JavaScript''
      else if endswith url_lower ''.html'' \<or> endswith url_lower ''.htm'' then ''HTML''
      else ''Other'')"

definition guess_resource_type :: "string \<Rightarrow> string \<Rightarrow> string" where
  "guess_resource_type u content_type =
     (let url_lower = lower u in
      case by_content_type content_type of
        Some r \<Rightarrow> r
      | None \<Rightarrow> by_extension url_lower)"

text \<open>
  A content type that decides the answer, and a URL whose extension does.
\<close>

definition content_type_match :: "string \<Rightarrow> bool" where
  "content_type_match ct \<longleftrightarrow>
     contains ct ''javascript'' \<or> contains ct ''css'' \<or> contains ct ''image/'' \<or>
     contains ct ''html''"

definition extension_match :: "string \<Rightarrow> bool" where
  "extension_match u \<longleftrightarrow>
     (\<exists>e \<in> set [''.jpg'', ''.jpeg'', ''.png'', ''.gif'', ''.webp'', ''.css'', ''.js'',
                 ''.html'', ''.htm'']. endswith (lower u) e)"

section \<open>Resource discovery (network\_monitor.py)\<close>

text \<open>
  The rows of table \<open>subsequent_requests\<close> (primary key and timestamp left out;
  the column \<open>url_id\<close> is written \<open>sr_url_id\<close>).
\<close>

record SubsequentRequest =
  sr_url_id :: int
  target_url :: string
  ip_address :: string
  resource_type :: string
  state_type :: string
  protocol :: string

text \<open>
  The database session. database.py builds it with \<open>autoflush=False\<close>, so a query
  sees the rows stored in the database and not the rows added to the session since the
  last commit: \<open>add\<close> makes a row pending, \<open>commit\<close> stores the pending rows.
\<close>

record session =
  stored :: "SubsequentRequest list"
  pending :: "SubsequentRequest list"

definition url_exists_for_monitor :: "session \<Rightarrow> int \<Rightarrow> string \<Rightarrow> bool" where
  "url_exists_for_monitor s i t =
     list_ex (\<lambda>r. sr_url_id r = i \<and> target_url r = t) (stored s)"

definition db_add :: "session \<Rightarrow> SubsequentRequest \<Rightarrow> session" where
  "db_add s r = s\<lparr>pending := pending s @ [r]\<rparr>"

definition db_commit :: "session \<Rightarrow> session" where
  "db_commit s = \<lparr>stored = stored s @ pending s, pending = []\<rparr>"

text \<open>
  A resource found in a page (the dictionaries of \<open>fallback_capture_method\<close>), a
  request parsed from a capture (the dictionaries of \<open>parse_capture_file\<close>, defaults
  filled in), and what the outside world answers during one discovery pass: the parts of
  a URL as \<open>urlparse\<close> gives them, name resolution (\<open>None\<close> when it raises), the
  page fetched by the fallback (its lowered content type and the URLs of its scripts,
  stylesheets and images, already joined to the base URL; or the exception raised),
  whether tcpdump is installed, and the requests parsed from the capture (\<open>None\<close>
  when the capture left no usable file or raised).
\<close>

record resource =
  res_url :: string
  res_resource_type :: string
  res_state_type :: string
  res_protocol :: string

datatype page =
  Response string "string list" "string list" "string list"
| RequestException
| ImportError
| OtherException

record parsed_request =
  req_url :: string
  req_ip :: string
  req_resource_type :: string
  req_state_type :: string
  req_protocol :: string

record discovery_world =
  scheme :: "string \<Rightarrow> string"
  netloc :: "string \<Rightarrow> string"
  gethostbyname :: "string \<Rightarrow> string option"
  page :: page
  tcpdump_available :: bool
  captured :: "parsed_request list option"

text \<open>
  The placeholder rows of the failure paths, the address lookup of a resource, and the
  loop that saves the resources of a page.
\<close>

definition placeholder :: "session \<Rightarrow> int \<Rightarrow> string \<Rightarrow> string \<Rightarrow> session" where
  "placeholder s i u ip =
     (if \<not> url_exists_for_monitor s i u then
        db_commit (db_add s
          \<lparr>sr_url_id = i, target_url = u, ip_address = ip, resource_type = ''Unknown'',
           state_type = ''Unknown'', protocol = ''Unknown''\<rparr>)
      else s)"

definition resource_ip :: "discovery_world \<Rightarrow> string \<Rightarrow> string" where
  "resource_ip dw u =
     (let resource_hostname = netloc dw u in
      if resource_hostname \<noteq> [] then
        (case gethostbyname dw resource_hostname of Some ip \<Rightarrow> ip | None \<Rightarrow> ''Unknown'')
      else ''Unknown'')"

fun save_resources ::
  "discovery_world \<Rightarrow> int \<Rightarrow> resource list \<Rightarrow> session \<times> nat \<Rightarrow> session \<times> nat" where
  "save_resources dw i [] (s, n) = (s, n)"
| "save_resources dw i (r # rs) (s, n) =
     (if url_exists_for_monitor s i (res_url r) then save_resources dw i rs (s, n)
      else save_resources dw i rs
        (db_add s
           \<lparr>sr_url_id = i, target_url = res_url r, ip_address = resource_ip dw (res_url r),
            resource_type = res_resource_type r, state_type = res_state_type r,
            protocol = res_protocol r\<rparr>,
         n + 1))"

definition tagged :: "string \<Rightarrow> string \<Rightarrow> string \<Rightarrow> resource" where
  "tagged t st u =
     \<lparr>res_url = u, res_resource_type = t, res_state_type = st, res_protocol = ''TCP''\<rparr>"

definition fallback_capture_method ::
  "discovery_world \<Rightarrow> session \<Rightarrow> int \<Rightarrow> string \<Rightarrow> session" where
  "fallback_capture_method dw s i u0 =
     (case page dw of
        ImportError \<Rightarrow> placeholder s i u0 ''Dependencies Missing''
      | p \<Rightarrow>
          (let u = (if u0 \<noteq> [] \<and> \<not> (startswith u0 ''http://'' \<or> startswith u0 ''https://'')
                    then ''http://'' @ u0 else u0)
           in if netloc dw u = [] then placeholder s i u ''Invalid URL''
              else
                (case p of
                   Response content_type scripts stylesheets images \<Rightarrow>
                     if contains content_type ''text/html'' then
                       (let found = map (tagged ''JavaScript'' ''Stateless'') scripts @
                                    map (tagged ''Stylesheet'' ''Stateless'') stylesheets @
                                    map (tagged ''Image'' ''Stateless'') images;
                            resources = (if found = [] then [tagged ''HTML'' ''Stateful'' u]
                                         else found);
                            (s', new_resources_count) = save_resources dw i resources (s, 0)
                        in if new_resources_count > 0 then db_commit s' else s')
                     else if \<not> url_exists_for_monitor s i u then
                       db_commit (db_add s
                         \<lparr>sr_url_id = i, target_url = u, ip_address = ''Unknown'',
                          resource_type = guess_resource_type u content_type,
                          state_type = ''Unknown'', protocol = ''TCP''\<rparr>)
                     else s
                 | RequestException \<Rightarrow> placeholder s i u ''Request Failed''
                 | _ \<Rightarrow> placeholder s i u ''Error'')))"

text \<open>
  The loop that saves the requests of a capture, and \<open>capture_subsequent_requests\<close>.
  Its last handler (a row added without a look-up, when the fallback itself raises) is
  not reached: \<open>fallback_capture_method\<close> catches what it raises.
\<close>

fun save_requests :: "int \<Rightarrow> parsed_request list \<Rightarrow> session \<times> nat \<Rightarrow> session \<times> nat" where
  "save_requests i [] (s, n) = (s, n)"
| "save_requests i (r # rs) (s, n) =
     (if url_exists_for_monitor s i (req_url r) then save_requests i rs (s, n)
      else save_requests i rs
        (db_add s
           \<lparr>sr_url_id = i, target_url = req_url r, ip_address = req_ip r,
            resource_type = req_resource_type r, state_type = req_state_type r,
            protocol = req_protocol r\<rparr>,
         n + 1))"

definition capture_subsequent_requests ::
  "discovery_world \<Rightarrow> session \<Rightarrow> int \<Rightarrow> string \<Rightarrow> session" where
  "capture_subsequent_requests dw s i u =
     (if u = [] then fallback_capture_method dw s i u
      else if scheme dw u = [] \<or> netloc dw u = [] then fallback_capture_method dw s i u
      else
        (case gethostbyname dw (netloc dw u) of
           None \<Rightarrow> fallback_capture_method dw s i u
         | Some ip \<Rightarrow>
             if \<not> tcpdump_available dw then fallback_capture_method dw s i u
             else
               (case captured dw of
                  None \<Rightarrow> fallback_capture_method dw s i u
                | Some parsed_requests \<Rightarrow>
                    if parsed_requests = [] then fallback_capture_method dw s i u
                    else
                      (let (s', new_records_count) = save_requests i parsed_requests (s, 0)
                       in if new_records_count > 0 then db_commit s' else s'))))"

text \<open>
  The pairs (target id, resolved URL) stored in the database, and what one pass may do
  to a session with nothing pending: append rows of the target whose pair was not stored
  before, and leave nothing pending.
\<close>

definition pairs :: "session \<Rightarrow> (int \<times> string) list" where
  "pairs s = map (\<lambda>r. (sr_url_id r, target_url r)) (stored s)"

definition appended :: "session \<Rightarrow> int \<Rightarrow> session \<Rightarrow> bool" where
  "appended s i s' \<longleftrightarrow>
     pending s' = [] \<and>
     (\<exists>new. stored s' = stored s @ new \<and>
        (\<forall>r\<in>set new. sr_url_id r = i \<and> (i, target_url r) \<notin> set (pairs s)))"

section \<open>The API layer (app.py)\<close>

text \<open>
  The application holds the table \<open>urls\<close> (rows in primary-key order) and the
  monitor. \<open>add_data\<close> and \<open>update_data\<close> are the JSON bodies of the POST and PUT
  requests (a missing \<open>url\<close> is the empty string).
\<close>

record app_state =
  urls :: "URL list"
  monitor :: NetworkMonitor

record add_data =
  data_url :: string
  data_name :: "string option"
  data_check_frequency :: "int option"
  data_one_time :: bool

record update_data =
  new_name :: "string option"
  new_check_frequency :: "int option"
  new_is_active :: "bool option"

datatype api_result =
  BadRequest
| Conflict int
| Created URL
| OneTimeResult URL URLStatus
| NotFound
| Updated URL
| ServerError error

definition new_url_id :: "URL list \<Rightarrow> int" where
  "new_url_id rows = fold max (map URL_id rows) 0 + 1"

text \<open>
  \<open>add_url\<close> (POST /api/urls), with the world's answers for its own check and for
  its call of \<open>start_monitoring\<close>; \<open>update_url\<close> (PUT /api/urls/id); and the
  start of the process (\<open>__main__\<close>), which starts monitoring every active row.
\<close>

definition add_url ::
  "probe_world \<Rightarrow> monitoring_world \<Rightarrow> app_state \<Rightarrow> add_data \<Rightarrow> app_state \<times> api_result" where
  "add_url pw mw app d =
     (if data_url d = [] then (app, BadRequest)
      else
        (let one_time = data_one_time d in
         case (if \<not> one_time
               then find (\<lambda>r. url r = data_url d \<and> \<not> is_one_time r) (urls app)
               else None) of
           Some existing_url \<Rightarrow> (app, Conflict (URL_id existing_url))
         | None \<Rightarrow>
             (let row = \<lparr>URL_id = new_url_id (urls app), url = data_url d,
                         name = (case data_name d of Some n \<Rightarrow> n | None \<Rightarrow> data_url d),
                         is_active = (\<not> one_time),
                         check_frequency =
                           (case data_check_frequency d of Some f \<Rightarrow> f | None \<Rightarrow> 60),
                         is_one_time = one_time, alert_enabled = False,
                         consecutive_failures = 0, last_alerted_at = None,
                         alert_recovery = True\<rparr>;
                  (tbl, status) =
                    check_url pw (url_statuses (monitor app)) (URL_id row) (url row);
                  app1 = app\<lparr>urls := urls app @ [row],
                             monitor := (monitor app)\<lparr>url_statuses := tbl\<rparr>\<rparr>
              in if one_time then (app1, OneTimeResult row status)
                 else if is_active row then
                   (case start_monitoring mw (monitor app1) row of
                      (m, Inl e) \<Rightarrow> (app1\<lparr>monitor := m\<rparr>, ServerError e)
                    | (m, Inr x) \<Rightarrow> (app1\<lparr>monitor := m\<rparr>, Created row))
                 else (app1, Created row))))"

definition update_url ::
  "monitoring_world \<Rightarrow> app_state \<Rightarrow> int \<Rightarrow> update_data \<Rightarrow> app_state \<times> api_result" where
  "update_url mw app i d =
     (case find (\<lambda>r. URL_id r = i) (urls app) of
        None \<Rightarrow> (app, NotFound)
      | Some r \<Rightarrow>
          (let r1 = (case new_name d of Some n \<Rightarrow> r\<lparr>name := n\<rparr> | None \<Rightarrow> r);
               r2 = (case new_check_frequency d of
                       Some f \<Rightarrow> r1\<lparr>check_frequency := f\<rparr> | None \<Rightarrow> r1);
               r3 = (case new_is_active d of Some a \<Rightarrow> r2\<lparr>is_active := a\<rparr> | None \<Rightarrow> r2);
               app1 = app\<lparr>urls := map (\<lambda>x. if URL_id x = i then r3 else x) (urls app)\<rparr>
           in if is_active r3 then
                (case update_frequency mw (monitor app1) r3 of
                   (m, Inl e) \<Rightarrow> (app1\<lparr>monitor := m\<rparr>, ServerError e)
                 | (m, Inr b) \<Rightarrow> (app1\<lparr>monitor := m\<rparr>, Updated r3))
              else
                (case stop_monitoring (monitor app1) i of
                   (m, Inl e) \<Rightarrow> (app1\<lparr>monitor := m\<rparr>, ServerError e)
                 | (m, Inr b) \<Rightarrow> (app1\<lparr>monitor := m\<rparr>, Updated r3))))"

fun start_all ::
  "monitoring_world \<Rightarrow> NetworkMonitor \<Rightarrow> URL list \<Rightarrow> NetworkMonitor \<times> (error + unit)" where
  "start_all mw m [] = (m, Inr ())"
| "start_all mw m (r # rs) =
     (case start_monitoring mw m r of
        (m', Inl e) \<Rightarrow> (m', Inl e)
      | (m', Inr x) \<Rightarrow> start_all mw m' rs)"

definition main ::
  "monitoring_world \<Rightarrow> URL list \<Rightarrow> URLStatus list \<Rightarrow> app_state \<times> (error + unit)" where
  "main mw rows tbl =
     (let active_urls = filter is_active rows;
          (m, r) = start_all mw (new_monitor\<lparr>url_statuses := tbl\<rparr>) active_urls
      in (\<lparr>urls = rows, monitor = m\<rparr>, r))"

definition scheduled :: "app_state \<Rightarrow> int \<Rightarrow> bool" where
  "scheduled app i = (jobs (monitor app) i \<noteq> None)"

section \<open>Example inputs\<close>

text \<open>
  A manager with the defaults of \<open>__init__\<close> (threshold 2, cooldown 15 minutes) and a
  configured webhook; a monitored target with alerts enabled; a down and an up status;
  a world whose clock reads \<open>t\<close> and whose post succeeds or fails; a probe whose
  threads start and whose GET answers \<open>r\<close>; a world for \<open>start_monitoring\<close>
  whose clock stands in the 2020s (some 251000000000 seconds before the last
  \<open>datetime\<close>); and the monitor after target 1 has been scheduled once, every 60
  seconds.
\<close>

definition example_manager :: AlertManager where
  "example_manager =
     \<lparr>slack_webhook_url = ''https://hooks.slack.com/services/T/B/X'',
      failure_threshold = 2, cooldown_minutes = 15\<rparr>"

definition example_url :: "int \<Rightarrow> datetime option \<Rightarrow> URL" where
  "example_url n t =
     \<lparr>URL_id = 1, url = ''https://example.com'', name = ''example'', is_active = True,
      check_frequency = 60, is_one_time = False, alert_enabled = True,
      consecutive_failures = n, last_alerted_at = t, alert_recovery = True\<rparr>"

definition down_status :: URLStatus where
  "down_status =
     \<lparr>url_id = 1, status_code = 0, response_time = 0, is_up = False,
      error_message = Some ''timed out''\<rparr>"

definition up_status :: URLStatus where
  "up_status =
     \<lparr>url_id = 1, status_code = 200, response_time = 1 / 4, is_up = True,
      error_message = None\<rparr>"

definition world_at :: "datetime \<Rightarrow> bool \<Rightarrow> world" where
  "world_at t ok = \<lparr>now_check = t, post_ok = ok, now_sent = t + 1\<rparr>"

definition probe_answer :: "int attempt \<Rightarrow> probe_world" where
  "probe_answer r =
     \<lparr>capture_thread_start = Returned (), fallback_thread_start = Returned (),
      get_response = r, elapsed = 1 / 4\<rparr>"

definition monitored_url :: "int \<Rightarrow> string \<Rightarrow> int \<Rightarrow> URL" where
  "monitored_url i u f =
     \<lparr>URL_id = i, url = u, name = u, is_active = True, check_frequency = f,
      is_one_time = False, alert_enabled = False, consecutive_failures = 0,
      last_alerted_at = None, alert_recovery = True\<rparr>"

definition example_world :: "int attempt \<Rightarrow> monitoring_world" where
  "example_world r =
     \<lparr>lowest_interval = - 63900000000, highest_interval = 251000000000,
      probe = probe_answer r\<rparr>"

definition scheduled_once :: NetworkMonitor where
  "scheduled_once =
     \<lparr>scheduler = [0 \<mapsto> \<lparr>job_seconds = 60, job_args = (1, ''https://example.com'')\<rparr>],
      next_job_id = 1, jobs = [1 \<mapsto> 0],
      url_statuses = [\<lparr>url_id = 1, status_code = 200, response_time = 1 / 4, is_up = True,
                       error_message = None\<rparr>]\<rparr>"

text \<open>
  A page that shows the same image twice, fetched by the fallback (tcpdump is not
  installed).
\<close>

definition new_session :: session where
  "new_session = \<lparr>stored = [], pending = []\<rparr>"

definition page_with_repeated_image :: discovery_world where
  "page_with_repeated_image =
     \<lparr>scheme = (\<lambda>u. ''https''), netloc = (\<lambda>u. ''example.com''),
      gethostbyname = (\<lambda>h. Some ''93.184.216.34''),
      page = Response ''text/html; charset=utf-8'' [] []
               [''https://example.com/logo.png'', ''https://example.com/logo.png''],
      tcpdump_available = False, captured = None\<rparr>"

text \<open>
  A target added through the API, deactivated and activated again; and a one-time target
  activated through the API.
\<close>

definition new_app :: app_state where
  "new_app = \<lparr>urls = [], monitor = new_monitor\<rparr>"

definition example_site :: add_data where
  "example_site =
     \<lparr>data_url = ''https://example.com'', data_name = None, data_check_frequency = None,
      data_one_time = False\<rparr>"

definition set_active :: "bool \<Rightarrow> update_data" where
  "set_active a = \<lparr>new_name = None, new_check_frequency = None, new_is_active = Some a\<rparr>"

definition reactivated :: app_state where
  "reactivated =
     fst (update_url (example_world (Returned 200))
       (fst (update_url (example_world (Returned 200))
          (fst (add_url (probe_answer (Returned 200)) (example_world (Returned 200))
             new_app example_site))
          1 (set_active False)))
       1 (set_active True))"

definition one_time_site :: add_data where
  "one_time_site =
     \<lparr>data_url = ''https://example.com'', data_name = None, data_check_frequency = None,
      data_one_time = True\<rparr>"

definition one_time_activated :: app_state where
  "one_time_activated =
     fst (update_url (example_world (Returned 200))
       (fst (add_url (probe_answer (Returned 200)) (example_world (Returned 200))
          new_app one_time_site))
       1 (set_active True))"

section \<open>Properties of the alert manager\<close>

lemmas example_defs = example_manager_def example_url_def down_status_def up_status_def
  world_at_def

lemmas alert_defs = process_status_for_alerts_def send_failure_alert_def
  send_recovery_alert_def in_cooldown_def timedelta_minutes_def no_effects_def
  then_effects_def failure_posts_def delivered_failures_def alerting_def

lemmas tick_defs = process_ticks.simps Let_def case_prod_unfold

lemma failure_posts_simps:
  "failure_posts no_effects = []"
  "failure_posts (then_effects a b) = failure_posts a @ failure_posts b"
  by (simp_all add: failure_posts_def no_effects_def then_effects_def)

lemma delivered_failures_simps:
  "delivered_failures no_effects = 0"
  "delivered_failures (then_effects a b) = delivered_failures a + delivered_failures b"
  by (simp_all add: delivered_failures_def no_effects_def then_effects_def)

lemma posts_simps:
  "posts no_effects = []"
  "posts (then_effects a b) = posts a @ posts b"
  by (simp_all add: no_effects_def then_effects_def)

lemma process_ticks_Cons:
  "process_ticks am db i ((w, st) # ts) =
     (fst (process_ticks am (fst (process_status_for_alerts am w db i st)) i ts),
      then_effects (snd (process_status_for_alerts am w db i st))
        (snd (process_ticks am (fst (process_status_for_alerts am w db i st)) i ts)))"
  by (simp add: case_prod_unfold Let_def)

lemma process_untracked:
  "db i = None \<or> (\<exists>u. db i = Some u \<and> (\<not> alert_enabled u \<or> is_one_time u)) \<Longrightarrow>
   process_status_for_alerts am w db i st = (db, no_effects)"
  by (auto simp: process_status_for_alerts_def)

lemma process_up:
  "db i = Some u \<Longrightarrow> alert_enabled u \<Longrightarrow> \<not> is_one_time u \<Longrightarrow> is_up st \<Longrightarrow>
   process_status_for_alerts am w db i st =
     (db(i \<mapsto> u\<lparr>consecutive_failures := 0\<rparr>),
      if consecutive_failures u \<ge> failure_threshold am \<and> alert_recovery u
      then fst (send_recovery_alert am w u) else no_effects)"
  by (simp add: process_status_for_alerts_def Let_def)

lemma process_down_cross:
  "db i = Some u \<Longrightarrow> alert_enabled u \<Longrightarrow> \<not> is_one_time u \<Longrightarrow> \<not> is_up st \<Longrightarrow>
   consecutive_failures u + 1 = failure_threshold am \<Longrightarrow>
   process_status_for_alerts am w db i st =
     (db(i \<mapsto> fst (send_failure_alert am w (u\<lparr>consecutive_failures := consecutive_failures u + 1\<rparr>) st)),
      fst (snd (send_failure_alert am w (u\<lparr>consecutive_failures := consecutive_failures u + 1\<rparr>) st)))"
  by (simp add: process_status_for_alerts_def Let_def split: prod.splits)

lemma process_down_other:
  "db i = Some u \<Longrightarrow> alert_enabled u \<Longrightarrow> \<not> is_one_time u \<Longrightarrow> \<not> is_up st \<Longrightarrow>
   consecutive_failures u + 1 \<noteq> failure_threshold am \<Longrightarrow>
   process_status_for_alerts am w db i st =
     (db(i \<mapsto> u\<lparr>consecutive_failures := consecutive_failures u + 1\<rparr>), no_effects)"
  by (simp add: process_status_for_alerts_def Let_def split: prod.splits)

lemma in_cooldown_counter [simp]:
  "in_cooldown am w (u\<lparr>consecutive_failures := n\<rparr>) = in_cooldown am w u"
  by (simp add: in_cooldown_def)

lemma send_failure_alert_row:
  "fst (send_failure_alert am w u st) =
     (if slack_webhook_url am \<noteq> [] \<and> \<not> in_cooldown am w u \<and> post_ok w
      then u\<lparr>last_alerted_at := Some (now_sent w)\<rparr> else u)"
  by (simp add: send_failure_alert_def)

lemma send_failure_alert_posts:
  "posts (fst (snd (send_failure_alert am w u st))) =
     (if slack_webhook_url am \<noteq> [] \<and> \<not> in_cooldown am w u
      then [(FailureAlert, post_ok w)] else [])"
  by (simp add: send_failure_alert_def no_effects_def)

lemma send_recovery_alert_posts:
  "posts (fst (send_recovery_alert am w u)) =
     (if slack_webhook_url am \<noteq> [] then [(RecoveryAlert, post_ok w)] else [])"
  by (simp add: send_recovery_alert_def no_effects_def)

text \<open>
  Within a down-streak the counter never decreases, and once it has reached the
  threshold nothing more is posted.
\<close>

lemma down_tick_counter:
  assumes "db i = Some u" "\<not> is_up st"
  shows "\<exists>u'. fst (process_status_for_alerts am w db i st) i = Some u' \<and>
            consecutive_failures u' \<ge> consecutive_failures u"
proof (cases "alert_enabled u \<and> \<not> is_one_time u")
  case False
  then show ?thesis using assms by (simp add: process_untracked)
next
  case True
  then show ?thesis using assms
    by (cases "consecutive_failures u + 1 = failure_threshold am")
       (simp_all add: process_down_cross process_down_other send_failure_alert_row)
qed

lemma down_tick_above:
  assumes "db i = Some u" "\<not> is_up st" "consecutive_failures u \<ge> failure_threshold am"
  shows "posts (snd (process_status_for_alerts am w db i st)) = []"
proof (cases "alert_enabled u \<and> \<not> is_one_time u")
  case False
  then show ?thesis using assms by (simp add: process_untracked posts_simps)
next
  case True
  then show ?thesis using assms by (simp add: process_down_other posts_simps)
qed

lemma streak_above:
  "db i = Some u \<Longrightarrow> consecutive_failures u \<ge> failure_threshold am \<Longrightarrow>
   \<forall>t\<in>set ticks. \<not> is_up (snd t) \<Longrightarrow>
   posts (snd (process_ticks am db i ticks)) = []"
proof (induction ticks arbitrary: db u)
  case Nil
  then show ?case by (simp add: posts_simps)
next
  case (Cons t ticks)
  obtain w st where t: "t = (w, st)" by (cases t)
  have down: "\<not> is_up st" using Cons.prems(3) t by simp
  obtain u' where u': "fst (process_status_for_alerts am w db i st) i = Some u'"
      "consecutive_failures u' \<ge> consecutive_failures u"
    using down_tick_counter [of db i u st am w] Cons.prems(1) down by blast
  have now: "posts (snd (process_status_for_alerts am w db i st)) = []"
    using down_tick_above [of db i u st am w] Cons.prems(1,2) down by blast
  have rest: "posts (snd (process_ticks am (fst (process_status_for_alerts am w db i st)) i ticks)) = []"
    using Cons.IH [of "fst (process_status_for_alerts am w db i st)" u'] u' Cons.prems(2,3) by simp
  show ?case using now rest unfolding t process_ticks_Cons by (simp add: posts_simps)
qed

lemma failure_posts_nil: "posts e = [] \<Longrightarrow> failure_posts e = []"
  by (simp add: failure_posts_def)

lemma down_tick_posts:
  assumes "\<not> is_up st"
  shows "length (failure_posts (snd (process_status_for_alerts am w db i st))) \<le> 1 \<and>
         (failure_posts (snd (process_status_for_alerts am w db i st)) \<noteq> [] \<longrightarrow>
            (\<exists>u'. fst (process_status_for_alerts am w db i st) i = Some u' \<and>
                   consecutive_failures u' \<ge> failure_threshold am))"
proof (cases "db i")
  case None
  then show ?thesis by (simp add: process_untracked failure_posts_simps)
next
  case (Some u)
  show ?thesis
  proof (cases "alert_enabled u \<and> \<not> is_one_time u")
    case False
    then show ?thesis using Some by (simp add: process_untracked failure_posts_simps)
  next
    case True
    then show ?thesis using Some assms
      by (cases "consecutive_failures u + 1 = failure_threshold am")
         (auto simp: process_down_cross process_down_other send_failure_alert_row
            posts_simps failure_posts_def send_failure_alert_posts)
  qed
qed

lemma streak_at_most_one:
  "\<forall>t\<in>set ticks. \<not> is_up (snd t) \<Longrightarrow>
   length (failure_posts (snd (process_ticks am db i ticks))) \<le> 1"
proof (induction ticks arbitrary: db)
  case Nil
  then show ?case by (simp add: failure_posts_simps)
next
  case (Cons t ticks)
  obtain w st where t: "t = (w, st)" by (cases t)
  have down: "\<not> is_up st" using Cons.prems t by simp
  let ?r = "process_status_for_alerts am w db i st"
  have split: "failure_posts (snd (process_ticks am db i (t # ticks))) =
      failure_posts (snd ?r) @ failure_posts (snd (process_ticks am (fst ?r) i ticks))"
    unfolding t process_ticks_Cons by (simp add: failure_posts_simps)
  show ?case
  proof (cases "failure_posts (snd ?r) = []")
    case True
    then show ?thesis using split Cons.IH [of "fst ?r"] Cons.prems by simp
  next
    case False
    then obtain u' where "fst ?r i = Some u'" "consecutive_failures u' \<ge> failure_threshold am"
      using down_tick_posts [OF down, of am w db i] by blast
    then have "posts (snd (process_ticks am (fst ?r) i ticks)) = []"
      using streak_above Cons.prems by simp
    then show ?thesis using split down_tick_posts [OF down, of am w db i]
      by (simp add: failure_posts_nil)
  qed
qed

text \<open>
  Inside the cooldown the row keeps its \<open>last_alerted_at\<close> and nothing is delivered;
  a delivery sets \<open>last_alerted_at\<close> to the time of the delivery.
\<close>

lemma last_alerted_kept:
  assumes "db i = Some u" "last_alerted_at u = Some t"
    "now_check w - t < timedelta_minutes (cooldown_minutes am)"
  shows "delivered_failures (snd (process_status_for_alerts am w db i st)) = 0 \<and>
         (\<exists>u'. fst (process_status_for_alerts am w db i st) i = Some u' \<and>
               last_alerted_at u' = Some t)"
proof -
  have cd: "\<And>n. in_cooldown am w (u\<lparr>consecutive_failures := n\<rparr>)"
    using assms by (simp add: in_cooldown_def)
  show ?thesis
  proof (cases "alert_enabled u \<and> \<not> is_one_time u")
    case False
    then show ?thesis using assms by (simp add: process_untracked delivered_failures_simps)
  next
    case tracked: True
    show ?thesis
    proof (cases "is_up st")
      case True
      then show ?thesis using assms tracked
        by (simp add: process_up delivered_failures_def send_recovery_alert_posts posts_simps)
    next
      case False
      then show ?thesis using assms tracked cd
        by (cases "consecutive_failures u + 1 = failure_threshold am")
           (simp_all add: process_down_cross process_down_other delivered_failures_def
              send_failure_alert_posts send_failure_alert_row posts_simps)
    qed
  qed
qed

lemma silenced_run:
  "db i = Some u \<Longrightarrow> last_alerted_at u = Some t \<Longrightarrow>
   \<forall>a\<in>set ticks. now_check (fst a) - t < timedelta_minutes (cooldown_minutes am) \<Longrightarrow>
   delivered_failures (snd (process_ticks am db i ticks)) = 0"
proof (induction ticks arbitrary: db u)
  case Nil
  then show ?case by (simp add: delivered_failures_simps)
next
  case (Cons x ticks)
  obtain w st where x: "x = (w, st)" by (cases x)
  let ?r = "process_status_for_alerts am w db i st"
  have "now_check w - t < timedelta_minutes (cooldown_minutes am)"
    using Cons.prems(3) x by simp
  then obtain u' where step: "delivered_failures (snd ?r) = 0" "fst ?r i = Some u'"
      "last_alerted_at u' = Some t"
    using last_alerted_kept [of db i u t w am st] Cons.prems(1,2) by blast
  have "delivered_failures (snd (process_ticks am (fst ?r) i ticks)) = 0"
    using Cons.IH [of "fst ?r" u'] step Cons.prems(3) by simp
  then show ?case using step(1) unfolding x process_ticks_Cons
    by (simp add: delivered_failures_simps)
qed

lemma delivery_sets_last_alerted:
  "delivered_failures (snd (process_status_for_alerts am w db i st)) = 0 \<or>
   (delivered_failures (snd (process_status_for_alerts am w db i st)) = 1 \<and>
    (\<exists>u'. fst (process_status_for_alerts am w db i st) i = Some u' \<and>
          last_alerted_at u' = Some (now_sent w)))"
proof (cases "db i")
  case None
  then show ?thesis by (simp add: process_untracked delivered_failures_simps)
next
  case (Some u)
  show ?thesis
  proof (cases "alert_enabled u \<and> \<not> is_one_time u")
    case False
    then show ?thesis using Some by (simp add: process_untracked delivered_failures_simps)
  next
    case tracked: True
    show ?thesis
    proof (cases "is_up st")
      case True
      then show ?thesis using Some tracked
        by (simp add: process_up delivered_failures_def send_recovery_alert_posts posts_simps)
    next
      case False
      then show ?thesis using Some tracked
        by (cases "consecutive_failures u + 1 = failure_threshold am")
           (simp_all add: process_down_cross process_down_other delivered_failures_def
              send_failure_alert_posts send_failure_alert_row posts_simps)
    qed
  qed
qed

lemma window_at_most_one:
  "\<forall>a\<in>set ticks. \<forall>b\<in>set ticks.
      now_check (fst a) - now_sent (fst b) < timedelta_minutes (cooldown_minutes am) \<Longrightarrow>
   delivered_failures (snd (process_ticks am db i ticks)) \<le> 1"
proof (induction ticks arbitrary: db)
  case Nil
  then show ?case by (simp add: delivered_failures_simps)
next
  case (Cons x ticks)
  obtain w st where x: "x = (w, st)" by (cases x)
  let ?r = "process_status_for_alerts am w db i st"
  have total: "delivered_failures (snd (process_ticks am db i (x # ticks))) =
      delivered_failures (snd ?r) + delivered_failures (snd (process_ticks am (fst ?r) i ticks))"
    unfolding x process_ticks_Cons by (simp add: delivered_failures_simps)
  have rest: "\<forall>a\<in>set ticks. \<forall>b\<in>set ticks.
      now_check (fst a) - now_sent (fst b) < timedelta_minutes (cooldown_minutes am)"
    using Cons.prems by simp
  show ?case
  proof (cases "delivered_failures (snd ?r) = 0")
    case True
    then show ?thesis using total Cons.IH [OF rest, of "fst ?r"] by simp
  next
    case False
    then obtain u' where one: "delivered_failures (snd ?r) = 1" "fst ?r i = Some u'"
        "last_alerted_at u' = Some (now_sent w)"
      using delivery_sets_last_alerted [of am w db i st] by auto
    have "\<forall>a\<in>set ticks. now_check (fst a) - now_sent w < timedelta_minutes (cooldown_minutes am)"
      using Cons.prems x by simp
    then have "delivered_failures (snd (process_ticks am (fst ?r) i ticks)) = 0"
      using silenced_run [of "fst ?r" i u' "now_sent w" ticks am] one by simp
    then show ?thesis using total one by simp
  qed
qed

text \<open>
  C1 (as amended). For a monitored target with alerts enabled and a configured webhook,
  one call attempts a failure post exactly when the outcome is down, the counter moves
  from threshold - 1 to the threshold, and the target is outside the cooldown window.
  Over a run of down outcomes (one contiguous down-streak) at most one failure post is
  attempted, however long the streak.
\<close>

theorem failure_alert_iff_crossing_outside_cooldown:
  assumes "db i = Some u" and "alert_enabled u" and "\<not> is_one_time u"
    and "slack_webhook_url am \<noteq> []"
  shows "(failure_posts (snd (process_status_for_alerts am w db i st)) \<noteq> [] \<longleftrightarrow>
            \<not> is_up st \<and> consecutive_failures u = failure_threshold am - 1 \<and>
            \<not> in_cooldown am w u)
       \<and> (\<forall>ticks. (\<forall>t\<in>set ticks. \<not> is_up (snd t)) \<longrightarrow>
            length (failure_posts (snd (process_ticks am db i ticks))) \<le> 1)"
proof
  show "failure_posts (snd (process_status_for_alerts am w db i st)) \<noteq> [] \<longleftrightarrow>
            \<not> is_up st \<and> consecutive_failures u = failure_threshold am - 1 \<and>
            \<not> in_cooldown am w u"
  proof (cases "is_up st")
    case True
    then show ?thesis using assms
      by (simp add: process_up failure_posts_def send_recovery_alert_posts posts_simps)
  next
    case False
    then show ?thesis using assms
      by (cases "consecutive_failures u + 1 = failure_threshold am")
         (auto simp: process_down_cross process_down_other failure_posts_def
            send_failure_alert_posts posts_simps)
  qed
  show "\<forall>ticks. (\<forall>t\<in>set ticks. \<not> is_up (snd t)) \<longrightarrow>
            length (failure_posts (snd (process_ticks am db i ticks))) \<le> 1"
    using streak_at_most_one by blast
qed

theorem failure_alert_iff_crossing_outside_cooldown_witness:
  "[1 \<mapsto> example_url 1 None] 1 = Some (example_url 1 None) \<and>
   alert_enabled (example_url 1 None) \<and> \<not> is_one_time (example_url 1 None) \<and>
   slack_webhook_url example_manager \<noteq> [] \<and>
   failure_posts (snd (process_status_for_alerts example_manager (world_at 0 True)
      [1 \<mapsto> example_url 1 None] 1 down_status)) \<noteq> [] \<and>
   length (failure_posts (snd (process_ticks example_manager [1 \<mapsto> example_url 1 None] 1
      [(world_at 0 True, down_status), (world_at 60000000 True, down_status)]))) \<le> 1"
proof -
  have h1: "[1 \<mapsto> example_url 1 None] 1 = Some (example_url 1 None)" by simp
  have h2: "alert_enabled (example_url 1 None)" by (simp add: example_defs)
  have h3: "\<not> is_one_time (example_url 1 None)" by (simp add: example_defs)
  have h4: "slack_webhook_url example_manager \<noteq> []" by (simp add: example_defs)
  have down: "\<forall>t\<in>set [(world_at 0 True, down_status), (world_at 60000000 True, down_status)].
      \<not> is_up (snd t)" by (simp add: example_defs)
  have c: "\<not> is_up down_status \<and>
      consecutive_failures (example_url 1 None) = failure_threshold example_manager - 1 \<and>
      \<not> in_cooldown example_manager (world_at 0 True) (example_url 1 None)"
    by (simp add: example_defs in_cooldown_def)
  note t = failure_alert_iff_crossing_outside_cooldown [where db = "[1 \<mapsto> example_url 1 None]"
      and i = 1 and u = "example_url 1 None" and am = example_manager
      and w = "world_at 0 True" and st = down_status, OF h1 h2 h3 h4]
  show ?thesis using h1 h2 h3 h4 t c down by blast
qed

text \<open>
  C1, as stated, fails inside the cooldown window: on a down outcome one minute after the
  last alert the counter moves from threshold - 1 (1) to the threshold (2), and nothing
  is posted.
\<close>

theorem crossing_in_cooldown_emits_nothing:
  "consecutive_failures (example_url 1 (Some 0)) = failure_threshold example_manager - 1 \<and>
   \<not> is_up down_status \<and>
   map_option consecutive_failures
     (fst (process_status_for_alerts example_manager (world_at 60000000 True)
        [1 \<mapsto> example_url 1 (Some 0)] 1 down_status) 1) = Some (failure_threshold example_manager) \<and>
   posts (snd (process_status_for_alerts example_manager (world_at 60000000 True)
        [1 \<mapsto> example_url 1 (Some 0)] 1 down_status)) = []"
  by (simp add: example_defs alert_defs)

text \<open>
  C2. A threshold crossing while \<open>now - last_alerted_at\<close> is below the cooldown posts
  nothing; the row is committed with the counter incremented (so the target is alerting)
  and \<open>last_alerted_at\<close> as it was; the later down outcomes of the streak post nothing
  either (the alert is dropped, not deferred). Hence over any run of ticks whose clock
  readings all lie within one cooldown window, at most one failure notification is
  delivered.
\<close>

theorem cooldown_drops_failure_alert:
  assumes "db i = Some u" and "alert_enabled u" and "\<not> is_one_time u" and "\<not> is_up st"
    and "consecutive_failures u + 1 = failure_threshold am"
    and "last_alerted_at u = Some t"
    and "now_check w - t < timedelta_minutes (cooldown_minutes am)"
  shows "posts (snd (process_status_for_alerts am w db i st)) = [] \<and>
         fst (process_status_for_alerts am w db i st) =
           db(i \<mapsto> u\<lparr>consecutive_failures := consecutive_failures u + 1\<rparr>) \<and>
         alerting am (u\<lparr>consecutive_failures := consecutive_failures u + 1\<rparr>) \<and>
         (\<forall>ticks. (\<forall>x\<in>set ticks. \<not> is_up (snd x)) \<longrightarrow>
            posts (snd (process_ticks am (fst (process_status_for_alerts am w db i st)) i ticks)) = []) \<and>
         (\<forall>ticks db'.
            (\<forall>a\<in>set ticks. \<forall>b\<in>set ticks.
               now_check (fst a) - now_sent (fst b) < timedelta_minutes (cooldown_minutes am)) \<longrightarrow>
            delivered_failures (snd (process_ticks am db' i ticks)) \<le> 1)"
proof -
  let ?u1 = "u\<lparr>consecutive_failures := consecutive_failures u + 1\<rparr>"
  have cd: "in_cooldown am w u" using assms(6,7) by (simp add: in_cooldown_def)
  have p: "posts (snd (process_status_for_alerts am w db i st)) = []"
    using assms cd by (simp add: process_down_cross send_failure_alert_posts)
  have d: "fst (process_status_for_alerts am w db i st) = db(i \<mapsto> ?u1)"
    using assms cd by (simp add: process_down_cross send_failure_alert_row)
  have a: "alerting am ?u1" using assms(5) by (simp add: alerting_def)
  have later: "\<forall>ticks. (\<forall>x\<in>set ticks. \<not> is_up (snd x)) \<longrightarrow>
      posts (snd (process_ticks am (fst (process_status_for_alerts am w db i st)) i ticks)) = []"
  proof (intro allI impI)
    fix ticks :: "(world \<times> URLStatus) list"
    assume down: "\<forall>x\<in>set ticks. \<not> is_up (snd x)"
    have "(db(i \<mapsto> ?u1)) i = Some ?u1" by simp
    moreover have "consecutive_failures ?u1 \<ge> failure_threshold am" using assms(5) by simp
    ultimately show "posts (snd (process_ticks am
        (fst (process_status_for_alerts am w db i st)) i ticks)) = []"
      using streak_above [of "db(i \<mapsto> ?u1)" i ?u1 am ticks] down d by simp
  qed
  show ?thesis using p d a later window_at_most_one by blast
qed

text \<open>
  The witness: a crossing one minute after the last alert; and a run of five ticks within
  four minutes with two crossings (down, down, up, down, down), of which the first is
  delivered and the second dropped.
\<close>

theorem cooldown_drops_failure_alert_witness:
  "[1 \<mapsto> example_url 1 (Some 0)] 1 = Some (example_url 1 (Some 0)) \<and>
   alert_enabled (example_url 1 (Some 0)) \<and> \<not> is_one_time (example_url 1 (Some 0)) \<and>
   \<not> is_up down_status \<and>
   consecutive_failures (example_url 1 (Some 0)) + 1 = failure_threshold example_manager \<and>
   last_alerted_at (example_url 1 (Some 0)) = Some 0 \<and>
   now_check (world_at 60000000 True) - 0 < timedelta_minutes (cooldown_minutes example_manager) \<and>
   posts (snd (process_status_for_alerts example_manager (world_at 60000000 True)
      [1 \<mapsto> example_url 1 (Some 0)] 1 down_status)) = [] \<and>
   fst (process_status_for_alerts example_manager (world_at 60000000 True)
      [1 \<mapsto> example_url 1 (Some 0)] 1 down_status) =
     [1 \<mapsto> example_url 1 (Some 0)](1 \<mapsto> (example_url 1 (Some 0))\<lparr>consecutive_failures :=
        consecutive_failures (example_url 1 (Some 0)) + 1\<rparr>) \<and>
   posts (snd (process_ticks example_manager
      (fst (process_status_for_alerts example_manager (world_at 60000000 True)
         [1 \<mapsto> example_url 1 (Some 0)] 1 down_status)) 1
      [(world_at 120000000 True, down_status), (world_at 180000000 True, down_status)])) = [] \<and>
   delivered_failures (snd (process_ticks example_manager [1 \<mapsto> example_url 0 None] 1
      [(world_at 0 True, down_status), (world_at 60000000 True, down_status),
       (world_at 120000000 True, up_status), (world_at 180000000 True, down_status),
       (world_at 240000000 True, down_status)])) \<le> 1 \<and>
   posts (snd (process_ticks example_manager [1 \<mapsto> example_url 0 None] 1
      [(world_at 0 True, down_status), (world_at 60000000 True, down_status),
       (world_at 120000000 True, up_status), (world_at 180000000 True, down_status),
       (world_at 240000000 True, down_status)])) = [(FailureAlert, True), (RecoveryAlert, True)]"
proof -
  let ?u = "example_url 1 (Some 0)"
  let ?w = "world_at 60000000 True"
  let ?later = "[(world_at 120000000 True, down_status), (world_at 180000000 True, down_status)]"
  let ?run = "[(world_at 0 True, down_status), (world_at 60000000 True, down_status),
       (world_at 120000000 True, up_status), (world_at 180000000 True, down_status),
       (world_at 240000000 True, down_status)]"
  have h1: "[1 \<mapsto> ?u] 1 = Some ?u" by simp
  have h2: "alert_enabled ?u" by (simp add: example_defs)
  have h3: "\<not> is_one_time ?u" by (simp add: example_defs)
  have h4: "\<not> is_up down_status" by (simp add: example_defs)
  have h5: "consecutive_failures ?u + 1 = failure_threshold example_manager"
    by (simp add: example_defs)
  have h6: "last_alerted_at ?u = Some 0" by (simp add: example_defs)
  have h7: "now_check ?w - 0 < timedelta_minutes (cooldown_minutes example_manager)"
    by (simp add: example_defs timedelta_minutes_def)
  have down: "\<forall>x\<in>set ?later. \<not> is_up (snd x)" by (simp add: example_defs)
  have window: "\<forall>a\<in>set ?run. \<forall>b\<in>set ?run.
      now_check (fst a) - now_sent (fst b) < timedelta_minutes (cooldown_minutes example_manager)"
    by (simp add: example_defs timedelta_minutes_def)
  have trace: "posts (snd (process_ticks example_manager [1 \<mapsto> example_url 0 None] 1 ?run)) =
      [(FailureAlert, True), (RecoveryAlert, True)]"
    by (simp add: tick_defs example_defs alert_defs)
  note t = cooldown_drops_failure_alert [where db = "[1 \<mapsto> ?u]" and i = 1 and u = ?u
      and am = example_manager and w = ?w and st = down_status and t = 0,
      OF h1 h2 h3 h4 h5 h6 h7]
  from t have t1: "posts (snd (process_status_for_alerts example_manager ?w [1 \<mapsto> ?u] 1
      down_status)) = []" by blast
  from t have t2: "fst (process_status_for_alerts example_manager ?w [1 \<mapsto> ?u] 1 down_status) =
     [1 \<mapsto> ?u](1 \<mapsto> ?u\<lparr>consecutive_failures := consecutive_failures ?u + 1\<rparr>)" by blast
  from t down have t3: "posts (snd (process_ticks example_manager
      (fst (process_status_for_alerts example_manager ?w [1 \<mapsto> ?u] 1 down_status)) 1
      ?later)) = []" by blast
  from t window have t4: "delivered_failures (snd (process_ticks example_manager
      [1 \<mapsto> example_url 0 None] 1 ?run)) \<le> 1" by blast
  show ?thesis using h1 h2 h3 h4 h5 h6 h7 t1 t2 t3 t4 trace by blast
qed

text \<open>
  C3 (as amended). For a tracked target (alerts enabled, not one-time), an up outcome
  attempts a recovery post exactly when the target was alerting, \<open>alert_recovery\<close>
  is set and a webhook is configured, whatever the clock and \<open>last_alerted_at\<close> are
  (no cooldown test). In every case the counter is reset to 0; the target is then no
  longer alerting exactly when the threshold is at least 1.
\<close>

theorem recovery_alert_iff_alerting:
  assumes "db i = Some u" and "alert_enabled u" and "\<not> is_one_time u" and "is_up st"
  shows "posts (snd (process_status_for_alerts am w db i st)) =
           (if alerting am u \<and> alert_recovery u \<and> slack_webhook_url am \<noteq> []
            then [(RecoveryAlert, post_ok w)] else []) \<and>
         fst (process_status_for_alerts am w db i st) =
           db(i \<mapsto> u\<lparr>consecutive_failures := 0\<rparr>) \<and>
         (alerting am (u\<lparr>consecutive_failures := 0\<rparr>) \<longleftrightarrow> failure_threshold am \<le> 0)"
  using assms
  by (simp add: process_up alerting_def send_recovery_alert_posts posts_simps)

text \<open>
  The witness: an alerting target recovers one minute after its failure alert, inside
  the cooldown window, and the recovery post is attempted.
\<close>

theorem recovery_alert_iff_alerting_witness:
  "[1 \<mapsto> example_url 2 (Some 0)] 1 = Some (example_url 2 (Some 0)) \<and>
   alert_enabled (example_url 2 (Some 0)) \<and> \<not> is_one_time (example_url 2 (Some 0)) \<and>
   is_up up_status \<and>
   in_cooldown example_manager (world_at 60000000 True) (example_url 2 (Some 0)) \<and>
   posts (snd (process_status_for_alerts example_manager (world_at 60000000 True)
      [1 \<mapsto> example_url 2 (Some 0)] 1 up_status)) = [(RecoveryAlert, True)] \<and>
   fst (process_status_for_alerts example_manager (world_at 60000000 True)
      [1 \<mapsto> example_url 2 (Some 0)] 1 up_status) =
     [1 \<mapsto> example_url 2 (Some 0)](1 \<mapsto> (example_url 2 (Some 0))\<lparr>consecutive_failures := 0\<rparr>) \<and>
   \<not> alerting example_manager ((example_url 2 (Some 0))\<lparr>consecutive_failures := 0\<rparr>)"
proof -
  let ?u = "example_url 2 (Some 0)"
  let ?w = "world_at 60000000 True"
  have h1: "[1 \<mapsto> ?u] 1 = Some ?u" by simp
  have h2: "alert_enabled ?u" by (simp add: example_defs)
  have h3: "\<not> is_one_time ?u" by (simp add: example_defs)
  have h4: "is_up up_status" by (simp add: example_defs)
  have cd: "in_cooldown example_manager ?w ?u"
    by (simp add: example_defs in_cooldown_def timedelta_minutes_def)
  have a: "alerting example_manager ?u \<and> alert_recovery ?u \<and>
      slack_webhook_url example_manager \<noteq> [] \<and> \<not> failure_threshold example_manager \<le> 0"
    by (simp add: example_defs alerting_def)
  have ok: "post_ok ?w" by (simp add: example_defs)
  note t = recovery_alert_iff_alerting [where db = "[1 \<mapsto> ?u]" and i = 1 and u = ?u
      and am = example_manager and w = ?w and st = up_status, OF h1 h2 h3 h4]
  show ?thesis using h1 h2 h3 h4 cd t a ok by simp
qed

text \<open>
  C3, as stated, fails in three ways. With no webhook an alerting target with
  \<open>alert_recovery\<close> recovers and nothing is posted. A target with alerts disabled is
  left untouched by an up outcome: its counter stays at 5. With threshold 0 a target that
  never failed gets a recovery post, and is still alerting afterwards.
\<close>

theorem recovery_fails_without_webhook_tracking_or_threshold:
  "alerting (example_manager\<lparr>slack_webhook_url := []\<rparr>) (example_url 2 None) \<and>
   alert_recovery (example_url 2 None) \<and> is_up up_status \<and>
   posts (snd (process_status_for_alerts (example_manager\<lparr>slack_webhook_url := []\<rparr>)
      (world_at 0 True) [1 \<mapsto> example_url 2 None] 1 up_status)) = [] \<and>
   alert_recovery ((example_url 5 None)\<lparr>alert_enabled := False\<rparr>) \<and>
   fst (process_status_for_alerts example_manager (world_at 0 True)
      [1 \<mapsto> (example_url 5 None)\<lparr>alert_enabled := False\<rparr>] 1 up_status) =
     [1 \<mapsto> (example_url 5 None)\<lparr>alert_enabled := False\<rparr>] \<and>
   posts (snd (process_status_for_alerts example_manager (world_at 0 True)
      [1 \<mapsto> (example_url 5 None)\<lparr>alert_enabled := False\<rparr>] 1 up_status)) = [] \<and>
   posts (snd (process_status_for_alerts (example_manager\<lparr>failure_threshold := 0\<rparr>)
      (world_at 0 True) [1 \<mapsto> example_url 0 None] 1 up_status)) = [(RecoveryAlert, True)] \<and>
   map_option (alerting (example_manager\<lparr>failure_threshold := 0\<rparr>))
     (fst (process_status_for_alerts (example_manager\<lparr>failure_threshold := 0\<rparr>)
        (world_at 0 True) [1 \<mapsto> example_url 0 None] 1 up_status) 1) = Some True"
  by (simp add: example_defs alert_defs)

text \<open>
  C4 (as amended). When the threshold is crossed outside the cooldown window, the
  incremented counter (hence the alerting state) is committed whatever happens to the
  notification. With a webhook configured the post is attempted, and a failed delivery is
  printed and swallowed; with no webhook nothing is posted and a line is printed.
  \<open>last_alerted_at\<close> becomes the current time only when the delivery succeeds, and is
  left as it was otherwise.
\<close>

theorem failure_alert_commit_outside_cooldown:
  assumes "db i = Some u" and "alert_enabled u" and "\<not> is_one_time u" and "\<not> is_up st"
    and "consecutive_failures u + 1 = failure_threshold am"
    and "\<not> in_cooldown am w u"
  shows "posts (snd (process_status_for_alerts am w db i st)) =
           (if slack_webhook_url am = [] then [] else [(FailureAlert, post_ok w)]) \<and>
         printed (snd (process_status_for_alerts am w db i st)) =
           [if slack_webhook_url am = [] then NoWebhook
            else if post_ok w then AlertSent else ErrorSendingAlert] \<and>
         fst (process_status_for_alerts am w db i st) =
           db(i \<mapsto> u\<lparr>consecutive_failures := consecutive_failures u + 1,
                     last_alerted_at :=
                       if slack_webhook_url am \<noteq> [] \<and> post_ok w then Some (now_sent w)
                       else last_alerted_at u\<rparr>) \<and>
         alerting am (u\<lparr>consecutive_failures := consecutive_failures u + 1\<rparr>)"
  using assms
  by (simp add: process_down_cross send_failure_alert_def alerting_def)

theorem failure_alert_commit_outside_cooldown_witness:
  "[1 \<mapsto> example_url 1 None] 1 = Some (example_url 1 None) \<and>
   alert_enabled (example_url 1 None) \<and> \<not> is_one_time (example_url 1 None) \<and>
   \<not> is_up down_status \<and>
   consecutive_failures (example_url 1 None) + 1 = failure_threshold example_manager \<and>
   \<not> in_cooldown example_manager (world_at 5 True) (example_url 1 None) \<and>
   posts (snd (process_status_for_alerts example_manager (world_at 5 True)
      [1 \<mapsto> example_url 1 None] 1 down_status)) = [(FailureAlert, True)] \<and>
   printed (snd (process_status_for_alerts example_manager (world_at 5 True)
      [1 \<mapsto> example_url 1 None] 1 down_status)) = [AlertSent] \<and>
   fst (process_status_for_alerts example_manager (world_at 5 True)
      [1 \<mapsto> example_url 1 None] 1 down_status) = [1 \<mapsto> example_url 2 (Some 6)]"
proof -
  let ?u = "example_url 1 None"
  let ?w = "world_at 5 True"
  have h1: "[1 \<mapsto> ?u] 1 = Some ?u" by simp
  have h2: "alert_enabled ?u" by (simp add: example_defs)
  have h3: "\<not> is_one_time ?u" by (simp add: example_defs)
  have h4: "\<not> is_up down_status" by (simp add: example_defs)
  have h5: "consecutive_failures ?u + 1 = failure_threshold example_manager"
    by (simp add: example_defs)
  have h6: "slack_webhook_url example_manager \<noteq> []" by (simp add: example_defs)
  have h7: "\<not> in_cooldown example_manager ?w ?u" by (simp add: example_defs in_cooldown_def)
  have ok: "post_ok ?w \<and> now_sent ?w = 6" by (simp add: example_defs)
  have row: "?u\<lparr>consecutive_failures := consecutive_failures ?u + 1,
      last_alerted_at := Some 6\<rparr> = example_url 2 (Some 6)"
    by (simp add: example_defs)
  note t = failure_alert_commit_outside_cooldown [where db = "[1 \<mapsto> ?u]" and i = 1
      and u = ?u and am = example_manager and w = ?w and st = down_status,
      OF h1 h2 h3 h4 h5 h7]
  show ?thesis using h1 h2 h3 h4 h5 h6 h7 t ok row by simp
qed

text \<open>
  C4, as stated, fails when the delivery fails: the threshold is crossed outside the
  cooldown window, the post is attempted, the counter is committed, and
  \<open>last_alerted_at\<close> stays unset. With no webhook the crossing posts nothing at all.
\<close>

theorem failed_delivery_leaves_last_alerted_unset:
  "\<not> is_up down_status \<and>
   consecutive_failures (example_url 1 None) + 1 = failure_threshold example_manager \<and>
   \<not> in_cooldown example_manager (world_at 5 False) (example_url 1 None) \<and>
   posts (snd (process_status_for_alerts example_manager (world_at 5 False)
      [1 \<mapsto> example_url 1 None] 1 down_status)) = [(FailureAlert, False)] \<and>
   fst (process_status_for_alerts example_manager (world_at 5 False)
      [1 \<mapsto> example_url 1 None] 1 down_status) = [1 \<mapsto> example_url 2 None] \<and>
   posts (snd (process_status_for_alerts (example_manager\<lparr>slack_webhook_url := []\<rparr>)
      (world_at 5 True) [1 \<mapsto> example_url 1 None] 1 down_status)) = [] \<and>
   fst (process_status_for_alerts (example_manager\<lparr>slack_webhook_url := []\<rparr>)
      (world_at 5 True) [1 \<mapsto> example_url 1 None] 1 down_status) =
     [1 \<mapsto> example_url 2 None]"
  by (simp add: example_defs alert_defs)

section \<open>Properties of the probe\<close>




text \<open>
  C6 (as amended). When the GET returns a response with status code \<open>c\<close>, the status
  recorded has \<open>is_up\<close> exactly when \<open>c < 400\<close>: from 200 on this is the range
  [200, 400), and a code below 200 counts as up as well.
\<close>

theorem check_url_up_iff_below_400:
  assumes "get_reached pw" and "get_response pw = Returned c"
  shows "snd (check_url pw tbl i u) =
           \<lparr>url_id = i, status_code = c, response_time = elapsed pw, is_up = (c < 400),
            error_message = None\<rparr> \<and>
         (is_up (snd (check_url pw tbl i u)) \<longleftrightarrow> c < 400) \<and>
         (200 \<le> c \<longrightarrow> (is_up (snd (check_url pw tbl i u)) \<longleftrightarrow> 200 \<le> c \<and> c < 400))"
  using assms
  by (auto simp: check_url_def check_url_try_def get_reached_def Let_def split: attempt.splits)

theorem check_url_up_iff_below_400_witness:
  "get_reached (probe_answer (Returned 404)) \<and>
   get_response (probe_answer (Returned 404)) = Returned 404 \<and>
   snd (check_url (probe_answer (Returned 404)) [] 1 ''https://example.com'') =
     \<lparr>url_id = 1, status_code = 404, response_time = 1 / 4, is_up = False,
      error_message = None\<rparr> \<and>
   get_reached (probe_answer (Returned 302)) \<and>
   get_response (probe_answer (Returned 302)) = Returned 302 \<and>
   is_up (snd (check_url (probe_answer (Returned 302)) [] 1 ''https://example.com''))"
proof -
  have h1: "get_reached (probe_answer (Returned 404))"
    by (simp add: get_reached_def probe_answer_def)
  have h2: "get_response (probe_answer (Returned 404)) = Returned 404"
    by (simp add: probe_answer_def)
  have g1: "get_reached (probe_answer (Returned 302))"
    by (simp add: get_reached_def probe_answer_def)
  have g2: "get_response (probe_answer (Returned 302)) = Returned 302"
    by (simp add: probe_answer_def)
  have e: "elapsed (probe_answer (Returned 404)) = 1 / 4" by (simp add: probe_answer_def)
  note t = check_url_up_iff_below_400 [OF h1 h2, of "[]" 1 "''https://example.com''"]
  note s = check_url_up_iff_below_400 [OF g1 g2, of "[]" 1 "''https://example.com''"]
  show ?thesis using h1 h2 g1 g2 t s e by simp
qed

text \<open>
  C6, as stated, fails for an informational response: status code 101 is outside
  [200, 400) and is recorded as up.
\<close>

theorem informational_status_counts_as_up:
  "get_response (probe_answer (Returned 101)) = Returned 101 \<and>
   status_code (snd (check_url (probe_answer (Returned 101)) [] 1 ''https://example.com'')) = 101 \<and>
   is_up (snd (check_url (probe_answer (Returned 101)) [] 1 ''https://example.com'')) \<and>
   \<not> (200 \<le> (101::int) \<and> (101::int) < 400)"
  by (simp add: check_url_def check_url_try_def probe_answer_def Let_def)

section \<open>Properties of the scheduler\<close>












text \<open>
  The example monitor is what scheduling target 1 on a new monitor gives, and there
  \<open>self.jobs\<close> and the scheduler agree.
\<close>

lemma scheduled_once_reached:
  "start_monitoring (example_world (Returned 200)) new_monitor
     (monitored_url 1 ''https://example.com'' 60) = (scheduled_once, Inr ())"
  by (simp add: start_monitoring_def add_job_def check_url_def check_url_try_def Let_def
      new_monitor_def monitored_url_def example_world_def probe_answer_def scheduled_once_def)





section \<open>Properties of the resource-type guesser\<close>

lemma contains_nonempty: "contains ct (c # cs) \<Longrightarrow> ct \<noteq> []"
  by (auto simp: contains_def)

lemma by_content_type_cases:
  "by_content_type ct =
     (if contains ct ''javascript'' then Some ''JavaScript''
      else if contains ct ''css'' then Some ''Stylesheet''
      else if contains ct ''image/'' then Some ''Image''
      else if contains ct ''html'' then Some ''HTML''
      else None)"
proof (cases "ct = []")
  case True
  then show ?thesis by (simp add: by_content_type_def contains_def)
next
  case False
  then show ?thesis by (simp add: by_content_type_def)
qed

lemma by_content_type_range:
  "by_content_type ct \<in>
     {None, Some ''JavaScript'', Some ''Stylesheet'', Some ''Image'', Some ''HTML''}"
  unfolding by_content_type_cases by simp

lemma by_extension_range:
  "by_extension x \<in> {''JavaScript'', ''Stylesheet'', ''Image'', ''HTML'', ''Other''}"
  unfolding by_extension_def by simp

lemma guess_resource_type_range:
  "guess_resource_type u ct \<in> {''JavaScript'', ''Stylesheet'', ''Image'', ''HTML'', ''Other''}"
proof (cases "by_content_type ct")
  case None
  then show ?thesis using by_extension_range [of "lower u"]
    by (simp add: guess_resource_type_def)
next
  case (Some r)
  then have "guess_resource_type u ct = r" by (simp add: guess_resource_type_def)
  moreover have "r \<in> {''JavaScript'', ''Stylesheet'', ''Image'', ''HTML''}"
    using by_content_type_range [of ct] Some by simp
  ultimately show ?thesis by blast
qed

lemma known_not_unknown:
  "r \<in> {''JavaScript'', ''Stylesheet'', ''Image'', ''HTML'', ''Other''} \<Longrightarrow> r \<noteq> ''Unknown''"
  by auto

lemma by_extension_other:
  "\<not> extension_match u \<Longrightarrow> by_extension (lower u) = ''Other''"
  by (simp add: extension_match_def by_extension_def)

lemma by_extension_image:
  "endswith x ''.jpg'' \<or> endswith x ''.jpeg'' \<or> endswith x ''.png'' \<or>
       endswith x ''.gif'' \<or> endswith x ''.webp'' \<Longrightarrow> by_extension x = ''Image''"
  by (simp add: by_extension_def)

lemma by_extension_css:
  "\<not> (endswith x ''.jpg'' \<or> endswith x ''.jpeg'' \<or> endswith x ''.png'' \<or>
       endswith x ''.gif'' \<or> endswith x ''.webp'') \<Longrightarrow> endswith x ''.css'' \<Longrightarrow> by_extension x = ''Stylesheet''"
  by (simp add: by_extension_def)

lemma by_extension_js:
  "\<not> (endswith x ''.jpg'' \<or> endswith x ''.jpeg'' \<or> endswith x ''.png'' \<or>
       endswith x ''.gif'' \<or> endswith x ''.webp'') \<Longrightarrow> \<not> endswith x ''.css'' \<Longrightarrow> endswith x ''.js'' \<Longrightarrow>
   by_extension x = ''JavaScript''"
  by (simp add: by_extension_def)

lemma by_extension_html:
  "\<not> (endswith x ''.jpg'' \<or> endswith x ''.jpeg'' \<or> endswith x ''.png'' \<or>
       endswith x ''.gif'' \<or> endswith x ''.webp'') \<Longrightarrow> \<not> endswith x ''.css'' \<Longrightarrow> \<not> endswith x ''.js'' \<Longrightarrow>
   endswith x ''.html'' \<or> endswith x ''.htm'' \<Longrightarrow> by_extension x = ''HTML''"
  by (simp add: by_extension_def)

lemma no_content_type_match:
  "\<not> content_type_match ct \<Longrightarrow> guess_resource_type u ct = by_extension (lower u)"
  by (simp add: guess_resource_type_def by_content_type_cases content_type_match_def)

text \<open>
  C10. \<open>guess_resource_type\<close> answers one of JavaScript, Stylesheet, Image, HTML and
  Other for every URL and content type, never Unknown. The content type decides first, in
  the order javascript, css, image/, html. When it decides nothing, the extension of the
  lowered URL does: .jpg, .jpeg, .png, .gif and .webp give Image, .css gives Stylesheet,
  .js gives JavaScript, .html and .htm give HTML. When neither decides, the answer is
  Other.
\<close>

theorem guess_resource_type_total:
  "guess_resource_type u ct \<in> {''JavaScript'', ''Stylesheet'', ''Image'', ''HTML'', ''Other''} \<and>
   guess_resource_type u ct \<noteq> ''Unknown'' \<and>
   (contains ct ''javascript'' \<longrightarrow> guess_resource_type u ct = ''JavaScript'') \<and>
   (\<not> contains ct ''javascript'' \<and> contains ct ''css'' \<longrightarrow>
      guess_resource_type u ct = ''Stylesheet'') \<and>
   (\<not> contains ct ''javascript'' \<and> \<not> contains ct ''css'' \<and> contains ct ''image/'' \<longrightarrow>
      guess_resource_type u ct = ''Image'') \<and>
   (\<not> contains ct ''javascript'' \<and> \<not> contains ct ''css'' \<and> \<not> contains ct ''image/'' \<and>
    contains ct ''html'' \<longrightarrow> guess_resource_type u ct = ''HTML'') \<and>
   (\<not> content_type_match ct \<and>
      (endswith (lower u) ''.jpg'' \<or> endswith (lower u) ''.jpeg'' \<or> endswith (lower u) ''.png'' \<or>
       endswith (lower u) ''.gif'' \<or> endswith (lower u) ''.webp'') \<longrightarrow>
      guess_resource_type u ct = ''Image'') \<and>
   (\<not> content_type_match ct \<and>
      \<not> (endswith (lower u) ''.jpg'' \<or> endswith (lower u) ''.jpeg'' \<or> endswith (lower u) ''.png'' \<or>
       endswith (lower u) ''.gif'' \<or> endswith (lower u) ''.webp'') \<and>
      endswith (lower u) ''.css'' \<longrightarrow> guess_resource_type u ct = ''Stylesheet'') \<and>
   (\<not> content_type_match ct \<and>
      \<not> (endswith (lower u) ''.jpg'' \<or> endswith (lower u) ''.jpeg'' \<or> endswith (lower u) ''.png'' \<or>
       endswith (lower u) ''.gif'' \<or> endswith (lower u) ''.webp'') \<and>
      \<not> endswith (lower u) ''.css'' \<and> endswith (lower u) ''.js'' \<longrightarrow>
      guess_resource_type u ct = ''JavaScript'') \<and>
   (\<not> content_type_match ct \<and>
      \<not> (endswith (lower u) ''.jpg'' \<or> endswith (lower u) ''.jpeg'' \<or> endswith (lower u) ''.png'' \<or>
       endswith (lower u) ''.gif'' \<or> endswith (lower u) ''.webp'') \<and>
      \<not> endswith (lower u) ''.css'' \<and> \<not> endswith (lower u) ''.js'' \<and>
      (endswith (lower u) ''.html'' \<or> endswith (lower u) ''.htm'') \<longrightarrow>
      guess_resource_type u ct = ''HTML'') \<and>
   (\<not> content_type_match ct \<and> \<not> extension_match u \<longrightarrow> guess_resource_type u ct = ''Other'')"
proof -
  have r: "guess_resource_type u ct \<in> {''JavaScript'', ''Stylesheet'', ''Image'', ''HTML'', ''Other''}"
    by (rule guess_resource_type_range)
  have n: "guess_resource_type u ct \<noteq> ''Unknown''"
    using known_not_unknown [OF r] .
  have c3: "(contains ct ''javascript'' \<longrightarrow> guess_resource_type u ct = ''JavaScript'')" and c4: "(\<not> contains ct ''javascript'' \<and> contains ct ''css'' \<longrightarrow>
      guess_resource_type u ct = ''Stylesheet'')" and c5: "(\<not> contains ct ''javascript'' \<and> \<not> contains ct ''css'' \<and> contains ct ''image/'' \<longrightarrow>
      guess_resource_type u ct = ''Image'')" and c6: "(\<not> contains ct ''javascript'' \<and> \<not> contains ct ''css'' \<and> \<not> contains ct ''image/'' \<and>
    contains ct ''html'' \<longrightarrow> guess_resource_type u ct = ''HTML'')"
    by (simp_all add: guess_resource_type_def by_content_type_cases)
  have e1: "(\<not> content_type_match ct \<and>
      (endswith (lower u) ''.jpg'' \<or> endswith (lower u) ''.jpeg'' \<or> endswith (lower u) ''.png'' \<or>
       endswith (lower u) ''.gif'' \<or> endswith (lower u) ''.webp'') \<longrightarrow>
      guess_resource_type u ct = ''Image'')"
    using no_content_type_match [of ct u] by_extension_image [of "lower u"] by simp
  have e2: "(\<not> content_type_match ct \<and>
      \<not> (endswith (lower u) ''.jpg'' \<or> endswith (lower u) ''.jpeg'' \<or> endswith (lower u) ''.png'' \<or>
       endswith (lower u) ''.gif'' \<or> endswith (lower u) ''.webp'') \<and>
      endswith (lower u) ''.css'' \<longrightarrow> guess_resource_type u ct = ''Stylesheet'')"
    using no_content_type_match [of ct u] by_extension_css [of "lower u"] by simp
  have e3: "(\<not> content_type_match ct \<and>
      \<not> (endswith (lower u) ''.jpg'' \<or> endswith (lower u) ''.jpeg'' \<or> endswith (lower u) ''.png'' \<or>
       endswith (lower u) ''.gif'' \<or> endswith (lower u) ''.webp'') \<and>
      \<not> endswith (lower u) ''.css'' \<and> endswith (lower u) ''.js'' \<longrightarrow>
      guess_resource_type u ct = ''JavaScript'')"
    using no_content_type_match [of ct u] by_extension_js [of "lower u"] by simp
  have e4: "(\<not> content_type_match ct \<and>
      \<not> (endswith (lower u) ''.jpg'' \<or> endswith (lower u) ''.jpeg'' \<or> endswith (lower u) ''.png'' \<or>
       endswith (lower u) ''.gif'' \<or> endswith (lower u) ''.webp'') \<and>
      \<not> endswith (lower u) ''.css'' \<and> \<not> endswith (lower u) ''.js'' \<and>
      (endswith (lower u) ''.html'' \<or> endswith (lower u) ''.htm'') \<longrightarrow>
      guess_resource_type u ct = ''HTML'')"
    using no_content_type_match [of ct u] by_extension_html [of "lower u"] by simp
  have z: "(\<not> content_type_match ct \<and> \<not> extension_match u \<longrightarrow> guess_resource_type u ct = ''Other'')"
    using no_content_type_match [of ct u] by_extension_other [of u] by simp
  show ?thesis by (intro conjI) (rule r n c3 c4 c5 c6 e1 e2 e3 e4 z)+
qed

theorem guess_resource_type_total_witness:
  "contains ''application/javascript'' ''javascript'' \<and>
   guess_resource_type ''https://example.com/style.css'' ''application/javascript'' = ''JavaScript'' \<and>
   (\<not> content_type_match ''application/octet-stream'' \<and>
      (endswith (lower ''https://example.com/Logo.WEBP'') ''.jpg'' \<or> endswith (lower ''https://example.com/Logo.WEBP'') ''.jpeg'' \<or> endswith (lower ''https://example.com/Logo.WEBP'') ''.png'' \<or>
       endswith (lower ''https://example.com/Logo.WEBP'') ''.gif'' \<or> endswith (lower ''https://example.com/Logo.WEBP'') ''.webp'')) \<and>
   guess_resource_type ''https://example.com/Logo.WEBP'' ''application/octet-stream'' = ''Image'' \<and>
   (\<not> content_type_match ''application/octet-stream'' \<and>
      \<not> (endswith (lower ''https://example.com/MAIN.CSS'') ''.jpg'' \<or> endswith (lower ''https://example.com/MAIN.CSS'') ''.jpeg'' \<or> endswith (lower ''https://example.com/MAIN.CSS'') ''.png'' \<or>
       endswith (lower ''https://example.com/MAIN.CSS'') ''.gif'' \<or> endswith (lower ''https://example.com/MAIN.CSS'') ''.webp'') \<and>
      endswith (lower ''https://example.com/MAIN.CSS'') ''.css'') \<and>
   guess_resource_type ''https://example.com/MAIN.CSS'' ''application/octet-stream'' = ''Stylesheet'' \<and>
   (\<not> content_type_match [] \<and>
      \<not> (endswith (lower ''https://example.com/app.js'') ''.jpg'' \<or> endswith (lower ''https://example.com/app.js'') ''.jpeg'' \<or> endswith (lower ''https://example.com/app.js'') ''.png'' \<or>
       endswith (lower ''https://example.com/app.js'') ''.gif'' \<or> endswith (lower ''https://example.com/app.js'') ''.webp'') \<and>
      \<not> endswith (lower ''https://example.com/app.js'') ''.css'' \<and> endswith (lower ''https://example.com/app.js'') ''.js'') \<and>
   guess_resource_type ''https://example.com/app.js'' [] = ''JavaScript'' \<and>
   (\<not> content_type_match ''application/octet-stream'' \<and>
      \<not> (endswith (lower ''https://example.com/index.htm'') ''.jpg'' \<or> endswith (lower ''https://example.com/index.htm'') ''.jpeg'' \<or> endswith (lower ''https://example.com/index.htm'') ''.png'' \<or>
       endswith (lower ''https://example.com/index.htm'') ''.gif'' \<or> endswith (lower ''https://example.com/index.htm'') ''.webp'') \<and>
      \<not> endswith (lower ''https://example.com/index.htm'') ''.css'' \<and> \<not> endswith (lower ''https://example.com/index.htm'') ''.js'' \<and>
      (endswith (lower ''https://example.com/index.htm'') ''.html'' \<or> endswith (lower ''https://example.com/index.htm'') ''.htm'')) \<and>
   guess_resource_type ''https://example.com/index.htm'' ''application/octet-stream'' = ''HTML'' \<and>
   (\<not> content_type_match ''application/octet-stream'' \<and> \<not> extension_match ''https://example.com/data.bin'') \<and>
   guess_resource_type ''https://example.com/data.bin'' ''application/octet-stream'' = ''Other''"
proof -
  have ha: "contains ''application/javascript'' ''javascript''"
    unfolding content_type_match_def extension_match_def contains_def endswith_def lower_def
      lower_char_def by code_simp
  have ra: "guess_resource_type ''https://example.com/style.css'' ''application/javascript'' = ''JavaScript''"
    by (rule guess_resource_type_total [of "''https://example.com/style.css''" "''application/javascript''",
          THEN conjunct2, THEN conjunct2, THEN conjunct1, THEN mp, OF ha])
  have hb: "\<not> content_type_match ''application/octet-stream'' \<and>
      (endswith (lower ''https://example.com/Logo.WEBP'') ''.jpg'' \<or> endswith (lower ''https://example.com/Logo.WEBP'') ''.jpeg'' \<or> endswith (lower ''https://example.com/Logo.WEBP'') ''.png'' \<or>
       endswith (lower ''https://example.com/Logo.WEBP'') ''.gif'' \<or> endswith (lower ''https://example.com/Logo.WEBP'') ''.webp'')"
    unfolding content_type_match_def extension_match_def contains_def endswith_def lower_def
      lower_char_def by code_simp
  have rb: "guess_resource_type ''https://example.com/Logo.WEBP'' ''application/octet-stream'' = ''Image''"
    by (rule guess_resource_type_total [of "''https://example.com/Logo.WEBP''" "''application/octet-stream''",
          THEN conjunct2, THEN conjunct2, THEN conjunct2, THEN conjunct2, THEN conjunct2, THEN conjunct2, THEN conjunct1, THEN mp, OF hb])
  have hc: "\<not> content_type_match ''application/octet-stream'' \<and>
      \<not> (endswith (lower ''https://example.com/MAIN.CSS'') ''.jpg'' \<or> endswith (lower ''https://example.com/MAIN.CSS'') ''.jpeg'' \<or> endswith (lower ''https://example.com/MAIN.CSS'') ''.png'' \<or>
       endswith (lower ''https://example.com/MAIN.CSS'') ''.gif'' \<or> endswith (lower ''https://example.com/MAIN.CSS'') ''.webp'') \<and>
      endswith (lower ''https://example.com/MAIN.CSS'') ''.css''"
    unfolding content_type_match_def extension_match_def contains_def endswith_def lower_def
      lower_char_def by code_simp
  have rc: "guess_resource_type ''https://example.com/MAIN.CSS'' ''application/octet-stream'' = ''Stylesheet''"
    by (rule guess_resource_type_total [of "''https://example.com/MAIN.CSS''" "''application/octet-stream''",
          THEN conjunct2, THEN conjunct2, THEN conjunct2, THEN conjunct2, THEN conjunct2, THEN conjunct2, THEN conjunct2, THEN conjunct1, THEN mp, OF hc])
  have hd: "\<not> content_type_match [] \<and>
      \<not> (endswith (lower ''https://example.com/app.js'') ''.jpg'' \<or> endswith (lower ''https://example.com/app.js'') ''.jpeg'' \<or> endswith (lower ''https://example.com/app.js'') ''.png'' \<or>
       endswith (lower ''https://example.com/app.js'') ''.gif'' \<or> endswith (lower ''https://example.com/app.js'') ''.webp'') \<and>
      \<not> endswith (lower ''https://example.com/app.js'') ''.css'' \<and> endswith (lower ''https://example.com/app.js'') ''.js''"
    unfolding content_type_match_def extension_match_def contains_def endswith_def lower_def
      lower_char_def by code_simp
  have rd: "guess_resource_type ''https://example.com/app.js'' [] = ''JavaScript''"
    by (rule guess_resource_type_total [of "''https://example.com/app.js''" "[]",
          THEN conjunct2, THEN conjunct2, THEN conjunct2, THEN conjunct2, THEN conjunct2, THEN conjunct2, THEN conjunct2, THEN conjunct2, THEN conjunct1, THEN mp, OF hd])
  have he: "\<not> content_type_match ''application/octet-stream'' \<and>
      \<not> (endswith (lower ''https://example.com/index.htm'') ''.jpg'' \<or> endswith (lower ''https://example.com/index.htm'') ''.jpeg'' \<or> endswith (lower ''https://example.com/index.htm'') ''.png'' \<or>
       endswith (lower ''https://example.com/index.htm'') ''.gif'' \<or> endswith (lower ''https://example.com/index.htm'') ''.webp'') \<and>
      \<not> endswith (lower ''https://example.com/index.htm'') ''.css'' \<and> \<not> endswith (lower ''https://example.com/index.htm'') ''.js'' \<and>
      (endswith (lower ''https://example.com/index.htm'') ''.html'' \<or> endswith (lower ''https://example.com/index.htm'') ''.htm'')"
    unfolding content_type_match_def extension_match_def contains_def endswith_def lower_def
      lower_char_def by code_simp
  have re: "guess_resource_type ''https://example.com/index.htm'' ''application/octet-stream'' = ''HTML''"
    by (rule guess_resource_type_total [of "''https://example.com/index.htm''" "''application/octet-stream''",
          THEN conjunct2, THEN conjunct2, THEN conjunct2, THEN conjunct2, THEN conjunct2, THEN conjunct2, THEN conjunct2, THEN conjunct2, THEN conjunct2, THEN conjunct1, THEN mp, OF he])
  have hf: "\<not> content_type_match ''application/octet-stream'' \<and> \<not> extension_match ''https://example.com/data.bin''"
    unfolding content_type_match_def extension_match_def contains_def endswith_def lower_def
      lower_char_def by code_simp
  have rf: "guess_resource_type ''https://example.com/data.bin'' ''application/octet-stream'' = ''Other''"
    by (rule guess_resource_type_total [of "''https://example.com/data.bin''" "''application/octet-stream''",
          THEN conjunct2, THEN conjunct2, THEN conjunct2, THEN conjunct2, THEN conjunct2, THEN conjunct2, THEN conjunct2, THEN conjunct2, THEN conjunct2, THEN conjunct2, THEN mp, OF hf])
  show ?thesis
    by (rule conjI [OF ha conjI [OF ra conjI [OF hb conjI [OF rb conjI [OF hc conjI [OF rc
      conjI [OF hd conjI [OF rd conjI [OF he conjI [OF re conjI [OF hf rf]]]]]]]]]]])
qed

section \<open>Properties of resource discovery\<close>

text \<open>
  What the look-up before each insert does give: a pass started with nothing pending
  only appends rows whose pair was not stored before the pass, so a pair stored by an
  earlier pass is never stored again.
\<close>

lemma exists_iff_pair: "url_exists_for_monitor s i t \<longleftrightarrow> (i, t) \<in> set (pairs s)"
  by (auto simp: url_exists_for_monitor_def pairs_def list_ex_iff)

lemma exists_db_add [simp]: "url_exists_for_monitor (db_add s r) i t = url_exists_for_monitor s i t"
  by (simp add: url_exists_for_monitor_def db_add_def)

lemma appended_refl: "pending s = [] \<Longrightarrow> appended s i s"
  by (simp add: appended_def)

lemma appended_one:
  "pending s = [] \<Longrightarrow> \<not> url_exists_for_monitor s i (target_url r) \<Longrightarrow> sr_url_id r = i \<Longrightarrow>
   appended s i (db_commit (db_add s r))"
  by (simp add: appended_def db_commit_def db_add_def exists_iff_pair)

lemma placeholder_appended: "pending s = [] \<Longrightarrow> appended s i (placeholder s i u ip)"
  by (simp add: placeholder_def appended_refl appended_one)

lemma save_resources_adds:
  "save_resources dw i rs (s, n) = (s', n') \<Longrightarrow>
   stored s' = stored s \<and> n \<le> n' \<and>
   (\<exists>new. pending s' = pending s @ new \<and> length new = n' - n \<and>
      (\<forall>r\<in>set new. sr_url_id r = i \<and> \<not> url_exists_for_monitor s i (target_url r)))"
proof (induction rs arbitrary: s n)
  case Nil
  then show ?case by simp
next
  case (Cons r rs)
  show ?case
  proof (cases "url_exists_for_monitor s i (res_url r)")
    case True
    then show ?thesis using Cons.IH [of s n] Cons.prems by simp
  next
    case False
    let ?row = "\<lparr>sr_url_id = i, target_url = res_url r, ip_address = resource_ip dw (res_url r),
            resource_type = res_resource_type r, state_type = res_state_type r,
            protocol = res_protocol r\<rparr>"
    have step: "save_resources dw i rs (db_add s ?row, n + 1) = (s', n')"
      using Cons.prems False by simp
    from Cons.IH [OF step] obtain new where new:
      "stored s' = stored (db_add s ?row)" "n + 1 \<le> n'"
      "pending s' = pending (db_add s ?row) @ new" "length new = n' - (n + 1)"
      "\<forall>r\<in>set new. sr_url_id r = i \<and> \<not> url_exists_for_monitor (db_add s ?row) i (target_url r)"
      by blast
    have "pending s' = pending s @ (?row # new)" using new(3) by (simp add: db_add_def)
    moreover have "length (?row # new) = n' - n" using new(2,4) by simp
    moreover have "\<forall>r\<in>set (?row # new). sr_url_id r = i \<and>
        \<not> url_exists_for_monitor s i (target_url r)"
      using new(5) False by simp
    moreover have "stored s' = stored s" using new(1) by (simp add: db_add_def)
    moreover have "n \<le> n'" using new(2) by simp
    ultimately show ?thesis by blast
  qed
qed

lemma save_requests_adds:
  "save_requests i rs (s, n) = (s', n') \<Longrightarrow>
   stored s' = stored s \<and> n \<le> n' \<and>
   (\<exists>new. pending s' = pending s @ new \<and> length new = n' - n \<and>
      (\<forall>r\<in>set new. sr_url_id r = i \<and> \<not> url_exists_for_monitor s i (target_url r)))"
proof (induction rs arbitrary: s n)
  case Nil
  then show ?case by simp
next
  case (Cons r rs)
  show ?case
  proof (cases "url_exists_for_monitor s i (req_url r)")
    case True
    then show ?thesis using Cons.IH [of s n] Cons.prems by simp
  next
    case False
    let ?row = "\<lparr>sr_url_id = i, target_url = req_url r, ip_address = req_ip r,
            resource_type = req_resource_type r, state_type = req_state_type r,
            protocol = req_protocol r\<rparr>"
    have step: "save_requests i rs (db_add s ?row, n + 1) = (s', n')"
      using Cons.prems False by simp
    from Cons.IH [OF step] obtain new where new:
      "stored s' = stored (db_add s ?row)" "n + 1 \<le> n'"
      "pending s' = pending (db_add s ?row) @ new" "length new = n' - (n + 1)"
      "\<forall>r\<in>set new. sr_url_id r = i \<and> \<not> url_exists_for_monitor (db_add s ?row) i (target_url r)"
      by blast
    have "pending s' = pending s @ (?row # new)" using new(3) by (simp add: db_add_def)
    moreover have "length (?row # new) = n' - n" using new(2,4) by simp
    moreover have "\<forall>r\<in>set (?row # new). sr_url_id r = i \<and>
        \<not> url_exists_for_monitor s i (target_url r)"
      using new(5) False by simp
    moreover have "stored s' = stored s" using new(1) by (simp add: db_add_def)
    moreover have "n \<le> n'" using new(2) by simp
    ultimately show ?thesis by blast
  qed
qed

lemma commit_after_loop:
  assumes "pending s = []" and "stored s' = stored s"
    and "pending s' = pending s @ new" and "length new = n'"
    and "\<forall>r\<in>set new. sr_url_id r = i \<and> \<not> url_exists_for_monitor s i (target_url r)"
  shows "appended s i (if n' > 0 then db_commit s' else s')"
proof (cases "n' > 0")
  case True
  then show ?thesis using assms
    by (auto simp: appended_def db_commit_def exists_iff_pair)
next
  case False
  then have "new = []" using assms(4) by simp
  then show ?thesis using assms False by (simp add: appended_def)
qed

lemma save_resources_appended:
  assumes "pending s = []"
  shows "appended s i (case save_resources dw i rs (s, 0) of (s', n') \<Rightarrow>
      if n' > 0 then db_commit s' else s')"
proof -
  obtain s' n' where r: "save_resources dw i rs (s, 0) = (s', n')" by (cases "save_resources dw i rs (s, 0)")
  from save_resources_adds [OF r] obtain new where
    "stored s' = stored s" "pending s' = pending s @ new" "length new = n'"
    "\<forall>r\<in>set new. sr_url_id r = i \<and> \<not> url_exists_for_monitor s i (target_url r)"
    by auto
  then show ?thesis using commit_after_loop [OF assms, of s' new n' i] r by simp
qed

lemma save_requests_appended:
  assumes "pending s = []"
  shows "appended s i (case save_requests i rs (s, 0) of (s', n') \<Rightarrow>
      if n' > 0 then db_commit s' else s')"
proof -
  obtain s' n' where r: "save_requests i rs (s, 0) = (s', n')" by (cases "save_requests i rs (s, 0)")
  from save_requests_adds [OF r] obtain new where
    "stored s' = stored s" "pending s' = pending s @ new" "length new = n'"
    "\<forall>r\<in>set new. sr_url_id r = i \<and> \<not> url_exists_for_monitor s i (target_url r)"
    by auto
  then show ?thesis using commit_after_loop [OF assms, of s' new n' i] r by simp
qed

lemma fallback_appended:
  assumes "pending s = []"
  shows "appended s i (fallback_capture_method dw s i u)"
proof (cases "page dw")
  case (Response ct scripts stylesheets images)
  then show ?thesis
    using assms placeholder_appended [OF assms] save_resources_appended [OF assms]
      appended_one [OF assms] appended_refl [OF assms]
    by (simp add: fallback_capture_method_def Let_def)
next
  case RequestException
  then show ?thesis using placeholder_appended [OF assms]
    by (simp add: fallback_capture_method_def Let_def)
next
  case ImportError
  then show ?thesis using placeholder_appended [OF assms]
    by (simp add: fallback_capture_method_def Let_def)
next
  case OtherException
  then show ?thesis using placeholder_appended [OF assms]
    by (simp add: fallback_capture_method_def Let_def)
qed

lemma stored_pairs_not_reinserted:
  assumes "pending s = []"
  shows "appended s i (capture_subsequent_requests dw s i u)"
  using fallback_appended [OF assms] save_requests_appended [OF assms]
  by (simp add: capture_subsequent_requests_def Let_def split: option.splits)

lemma text_html: "contains ''text/html; charset=utf-8'' ''text/html''"
  unfolding contains_def by code_simp

lemma https_prefix: "startswith ''https://example.com'' ''https://''"
  unfolding startswith_def by code_simp

text \<open>
  C7 fails on the code within one pass: the look-up does not see the rows added since
  the last commit. For a page that shows the same image twice, the first discovery pass
  of target 1 stores the pair (1, image URL) twice.
\<close>

theorem repeated_resource_stored_twice:
  "pairs (capture_subsequent_requests page_with_repeated_image new_session 1
      ''https://example.com'') =
     [(1, ''https://example.com/logo.png''), (1, ''https://example.com/logo.png'')] \<and>
   \<not> distinct (pairs (capture_subsequent_requests page_with_repeated_image new_session 1
      ''https://example.com''))"
  using text_html https_prefix
  by (simp add: capture_subsequent_requests_def fallback_capture_method_def
      page_with_repeated_image_def new_session_def pairs_def tagged_def
      url_exists_for_monitor_def db_add_def db_commit_def resource_ip_def Let_def)

section \<open>Properties of the API layer\<close>

lemmas app_defs = add_url_def update_url_def new_app_def example_site_def set_active_def
  new_url_id_def start_monitoring_def stop_monitoring_def update_frequency_def job_remove_def
  add_job_def new_monitor_def check_url_def check_url_try_def probe_answer_def
  example_world_def Let_def
  scheduled_def

text \<open>
  What \<open>add_url\<close> does give: a one-time target is checked once and the scheduler is
  left alone; a target that is created for monitoring is active and scheduled.
\<close>

lemma add_url_one_time_not_scheduled:
  assumes "data_one_time d"
  shows "jobs (monitor (fst (add_url pw mw app d))) = jobs (monitor app) \<and>
         scheduler (monitor (fst (add_url pw mw app d))) = scheduler (monitor app)"
  using assms by (simp add: add_url_def Let_def check_url_def)

lemma add_url_created_scheduled:
  assumes "add_url pw mw app d = (app', Created r)"
  shows "is_active r \<and> \<not> is_one_time r \<and> scheduled app' (URL_id r)"
proof -
  have nz: "data_url d \<noteq> []" using assms by (auto simp: add_url_def)
  have no: "\<not> data_one_time d"
    using assms nz by (auto simp: add_url_def Let_def check_url_def split: option.splits)
  show ?thesis
    using assms nz no
    by (auto simp: add_url_def Let_def check_url_def scheduled_def start_monitoring_def
        add_job_def job_remove_def split: option.splits sum.splits if_splits prod.splits)
qed

text \<open>
  C9 fails on the code. A target that is added, deactivated and activated again through
  the API is active and not one-time, and has no job: \<open>update_url\<close> calls
  \<open>update_frequency\<close>, which does nothing for a target without a job.
\<close>

theorem reactivated_target_not_scheduled:
  "map (\<lambda>r. (URL_id r, is_active r, is_one_time r)) (urls reactivated) = [(1, True, False)] \<and>
   \<not> scheduled reactivated 1 \<and> scheduler (monitor reactivated) 0 = None"
  by (simp add: reactivated_def app_defs)

text \<open>
  In the other direction, a one-time target that is set active through the API gets a
  job when the process starts again.
\<close>

lemma one_time_target_scheduled_after_restart:
  "map (\<lambda>r. (URL_id r, is_active r, is_one_time r)) (urls one_time_activated) = [(1, True, True)] \<and>
   \<not> scheduled one_time_activated 1 \<and>
   snd (main (example_world (Returned 200)) (urls one_time_activated)
          (url_statuses (monitor one_time_activated))) = Inr () \<and>
   scheduled (fst (main (example_world (Returned 200)) (urls one_time_activated)
          (url_statuses (monitor one_time_activated)))) 1"
  by (simp add: one_time_activated_def one_time_site_def main_def app_defs)

end
